theory Spec2Isabelle
  imports Complex_Main
begin

section \<open>Thrown values\<close>

text \<open>
  A JavaScript \<^verbatim>\<open>throw\<close> can carry any value. \<^verbatim>\<open>handleError\<close> tells five kinds
  apart (an \<^verbatim>\<open>Error\<close> with its message, a \<^verbatim>\<open>Response\<close> with its status, an
  object with an \<^verbatim>\<open>error\<close> field, a string, anything else), and
  \<^verbatim>\<open>retryWithBackoff\<close> can throw its \<^verbatim>\<open>lastError\<close> while that is still
  \<^verbatim>\<open>undefined\<close>.  A string is the list of the bytes of its UTF-8 encoding.
\<close>

datatype thrown =
    JsError string
  | JsResponse nat
  | JsErrorField string
  | JsString string
  | JsUndefined
  | JsOther

section \<open>Strings\<close>

text \<open>\<^verbatim>\<open>String.prototype.includes\<close>: the argument occurs somewhere in the string.\<close>

fun str_includes :: "string \<Rightarrow> string \<Rightarrow> bool" where
  "str_includes [] sub = (sub = [])"
| "str_includes (c # cs) sub = (take (length sub) (c # cs) = sub \<or> str_includes cs sub)"

text \<open>Decimal digits of a number, as a template literal prints it.\<close>

fun show_nat :: "nat \<Rightarrow> string" where
  "show_nat n =
     (if n < 10 then [''0123456789'' ! n]
      else show_nat (n div 10) @ [''0123456789'' ! (n mod 10)])"

declare show_nat.simps [simp del]

text \<open>
  \<^verbatim>\<open>String.prototype.trim\<close> removes white space and line terminators from both ends.
  \<open>whiteSpace\<close> lists the UTF-8 encodings of the code points it removes: U+0009 to
  U+000D, U+0020, U+00A0, U+1680, U+2000 to U+200A, U+2028, U+2029, U+202F, U+205F,
  U+3000 and U+FEFF.
\<close>

definition whiteSpace :: "string list" where
  "whiteSpace =
     [[CHR 0x09], [CHR 0x0A], [CHR 0x0B], [CHR 0x0C], [CHR 0x0D], [CHR 0x20],
      [CHR 0xC2, CHR 0xA0], [CHR 0xE1, CHR 0x9A, CHR 0x80],
      [CHR 0xE2, CHR 0x80, CHR 0x80], [CHR 0xE2, CHR 0x80, CHR 0x81],
      [CHR 0xE2, CHR 0x80, CHR 0x82], [CHR 0xE2, CHR 0x80, CHR 0x83],
      [CHR 0xE2, CHR 0x80, CHR 0x84], [CHR 0xE2, CHR 0x80, CHR 0x85],
      [CHR 0xE2, CHR 0x80, CHR 0x86], [CHR 0xE2, CHR 0x80, CHR 0x87],
      [CHR 0xE2, CHR 0x80, CHR 0x88], [CHR 0xE2, CHR 0x80, CHR 0x89],
      [CHR 0xE2, CHR 0x80, CHR 0x8A], [CHR 0xE2, CHR 0x80, CHR 0xA8],
      [CHR 0xE2, CHR 0x80, CHR 0xA9], [CHR 0xE2, CHR 0x80, CHR 0xAF],
      [CHR 0xE2, CHR 0x81, CHR 0x9F], [CHR 0xE3, CHR 0x80, CHR 0x80],
      [CHR 0xEF, CHR 0xBB, CHR 0xBF]]"

text \<open>Removing, again and again, a pattern that the string starts with.\<close>

function strip :: "string list \<Rightarrow> string \<Rightarrow> string" where
  "strip ps s =
     (case find (\<lambda>p. p \<noteq> [] \<and> take (length p) s = p) ps of
        None \<Rightarrow> s
      | Some p \<Rightarrow> strip ps (drop (length p) s))"
  by pat_completeness auto
termination
proof (relation "measure (\<lambda>(ps, s). length s)")
  show "wf (measure (\<lambda>(ps, s). length s))" by simp
next
  fix ps :: "string list" and s p :: string
  assume "find (\<lambda>p. p \<noteq> [] \<and> take (length p) s = p) ps = Some p"
  then have "p \<noteq> []" and "take (length p) s = p"
    by (auto simp: find_Some_iff)
  then have "0 < length p" and "length (take (length p) s) = length p"
    by simp_all
  then have "0 < length p" and "length p \<le> length s"
    by simp_all
  then have "length s - length p < length s"
    by arith
  then show "((ps, drop (length p) s), (ps, s)) \<in> measure (\<lambda>(ps, s). length s)"
    by simp
qed

definition trim :: "string \<Rightarrow> string" where
  "trim s = rev (strip (map rev whiteSpace) (rev (strip whiteSpace s)))"

text \<open>\<^verbatim>\<open>Array.prototype.join\<close> on strings.\<close>

fun join :: "string \<Rightarrow> string list \<Rightarrow> string" where
  "join sep [] = ''''"
| "join sep [x] = x"
| "join sep (x # y # ys) = x @ sep @ join sep (y # ys)"

text \<open>
  \<^verbatim>\<open>query.toLowerCase() === 'test'\<close>: only the letters A to Z have a lower-case form
  among the letters of \<^verbatim>\<open>test\<close>.
\<close>

definition asciiLower :: "char \<Rightarrow> char" where
  "asciiLower c =
     (case map_of (zip ''ABCDEFGHIJKLMNOPQRSTUVWXYZ'' ''abcdefghijklmnopqrstuvwxyz'') c of
        Some l \<Rightarrow> l
      | None \<Rightarrow> c)"

definition isTestQuery :: "string \<Rightarrow> bool" where
  "isTestQuery q = (map asciiLower q = ''test'')"

text \<open>Truthiness of an optional string, and \<^verbatim>\<open>a || b\<close> on strings.\<close>

fun truthy :: "string option \<Rightarrow> bool" where
  "truthy None = False"
| "truthy (Some s) = (s \<noteq> [])"

fun orElse :: "string option \<Rightarrow> string \<Rightarrow> string" where
  "orElse None d = d"
| "orElse (Some s) d = (if s = [] then d else s)"

section \<open>retryWithBackoff\<close>

text \<open>
  The test \<^verbatim>\<open>error instanceof Error && error.message.includes('429')\<close>, written out
  in \<^verbatim>\<open>retryWithBackoff\<close>, in \<^verbatim>\<open>fetchContent\<close> and in both content-resolution
  callbacks.
\<close>

fun isRateLimitError :: "thrown \<Rightarrow> bool" where
  "isRateLimitError (JsError message) = str_includes message ''429''"
| "isRateLimitError _ = False"

text \<open>
  An operation is a closure whose outcome may differ from one invocation to the next:
  it takes the state of the outside world and returns what it threw (\<open>Inl\<close>) or
  returned (\<open>Inr\<close>) together with the world afterwards.  The result of a run records,
  besides the outcome, how often the operation was invoked and the delays slept.
\<close>

type_synonym ('a, 'w) operation = "'w \<Rightarrow> (thrown + 'a) \<times> 'w"

record ('a, 'w) retried =
  outcome :: "thrown + 'a"
  invocations :: nat
  delays :: "nat list"
  world :: 'w

text \<open>
  The \<^verbatim>\<open>for (let i = 0; i < maxRetries; i++)\<close> loop with its \<^verbatim>\<open>try/catch\<close>; the
  final \<^verbatim>\<open>throw lastError\<close> is the \<open>else\<close> branch.
\<close>

function retry_loop ::
  "('a, 'w) operation \<Rightarrow> nat \<Rightarrow> nat \<Rightarrow> nat \<Rightarrow> thrown \<Rightarrow> nat \<Rightarrow> nat list \<Rightarrow> 'w
     \<Rightarrow> ('a, 'w) retried" where
  "retry_loop operation maxRetries baseDelay i lastError n ds w =
     (if i < maxRetries then
        (case operation w of
           (Inr v, w') \<Rightarrow>
             \<lparr>outcome = Inr v, invocations = Suc n, delays = ds, world = w'\<rparr>
         | (Inl err, w') \<Rightarrow>
             if isRateLimitError err
             then retry_loop operation maxRetries baseDelay (Suc i) err (Suc n)
                    (ds @ [baseDelay * 2 ^ i]) w'
             else \<lparr>outcome = Inl err, invocations = Suc n, delays = ds, world = w'\<rparr>)
      else \<lparr>outcome = Inl lastError, invocations = n, delays = ds, world = w\<rparr>)"
  by pat_completeness auto
termination
  by (relation "measure (\<lambda>(operation, maxRetries, baseDelay, i, rest). maxRetries - i)") auto

definition retryWithBackoff ::
  "('a, 'w) operation \<Rightarrow> nat \<Rightarrow> nat \<Rightarrow> 'w \<Rightarrow> ('a, 'w) retried" where
  "retryWithBackoff operation maxRetries baseDelay w =
     retry_loop operation maxRetries baseDelay 0 JsUndefined 0 [] w"

section \<open>Data model\<close>

text \<open>
  Modelled from the spec: the declarations of \<^verbatim>\<open>SearchResult\<close>, \<^verbatim>\<open>RankingResult\<close>,
  \<^verbatim>\<open>Status\<close> and \<^verbatim>\<open>State\<close> (module \<^verbatim>\<open>@/types\<close>) are not among the sources.
  The records below have the fields the handlers read and write, and those of the initial
  value given to \<^verbatim>\<open>useState\<close>.  An optional field is an \<open>option\<close>; the optional
  \<^verbatim>\<open>id\<close> and \<^verbatim>\<open>isCustomUrl\<close> are only tested for truthiness, so a missing one is the
  empty string and \<open>False\<close>.  Scores are real numbers.
\<close>

record SearchResult =
  result_id :: string
  url :: string
  name :: string
  snippet :: string
  content :: "string option"
  score :: "real option"
  isCustomUrl :: bool

record RankingResult =
  rank_url :: string
  rank_score :: real

datatype SourceStatus = Fetched | Preview

record FetchStatus =
  fs_total :: nat
  fs_successful :: nat
  fs_fallback :: nat
  fs_sourceStatuses :: "string \<rightharpoonup> SourceStatus"

text \<open>
  The stage tags: the five values that the code assigns to \<^verbatim>\<open>agentStep\<close>, and
  \<open>StepError\<close> for the \<^verbatim>\<open>error\<close> stage that the transition table of the
  specification has and that no statement of the code assigns.
\<close>

datatype AgentStep =
  StepIdle | StepProcessing | StepSearching | StepAnalyzing | StepGenerating | StepError

record Status =
  loading :: bool
  generatingReport :: bool
  agentStep :: AgentStep
  fetchStatus :: FetchStatus
  agentInsights :: "string list"
  searchQueries :: "string list"

datatype TimeFilter = AnyTime | Past24h | PastWeek | PastMonth | PastYear

record 'r State =
  query :: string
  timeFilter :: TimeFilter
  results :: "SearchResult list"
  selectedResults :: "string list"
  reportPrompt :: string
  report :: "'r option"
  error :: "string option"
  newUrl :: string
  isSourcesOpen :: bool
  selectedModel :: string
  isAgentMode :: bool
  sidebarOpen :: bool
  activeTab :: string
  status :: Status

text \<open>\<^verbatim>\<open>CONFIG.search.maxSelectableResults\<close> and the constant bound to it.\<close>

definition maxSelectableResults :: nat where
  "maxSelectableResults = 3"

definition MAX_SELECTIONS :: nat where
  "MAX_SELECTIONS = maxSelectableResults"

text \<open>The value given to \<^verbatim>\<open>useState\<close>; the default model is a parameter.\<close>

definition initialState :: "string \<Rightarrow> 'r State" where
  "initialState defaultModel =
     \<lparr>query = '''', timeFilter = AnyTime, results = [], selectedResults = [],
      reportPrompt = '''', report = None, error = None, newUrl = '''',
      isSourcesOpen = False, selectedModel = defaultModel, isAgentMode = False,
      sidebarOpen = False, activeTab = ''search'',
      status = \<lparr>loading = False, generatingReport = False, agentStep = StepIdle,
        fetchStatus = \<lparr>fs_total = 0, fs_successful = 0, fs_fallback = 0,
          fs_sourceStatuses = Map.empty\<rparr>,
        agentInsights = [], searchQueries = []\<rparr>\<rparr>"

section \<open>handleError, updateStatus\<close>

type_synonym toast = "string \<times> string"

text \<open>
  \<^verbatim>\<open>handleError(error, context)\<close> stores the message in the state and shows a toast
  with the context as its title.
\<close>

fun errorMessage :: "thrown \<Rightarrow> string" where
  "errorMessage (JsError message) = message"
| "errorMessage (JsResponse st) = ''Server error: '' @ show_nat st"
| "errorMessage (JsErrorField e) = e"
| "errorMessage (JsString s) = s"
| "errorMessage _ = ''An unexpected error occurred''"

definition handleError :: "thrown \<Rightarrow> string \<Rightarrow> 'r State \<Rightarrow> 'r State \<times> toast list" where
  "handleError err context st =
     (st\<lparr>error := Some (errorMessage err)\<rparr>, [(context, errorMessage err)])"

definition updateStatus :: "(Status \<Rightarrow> Status) \<Rightarrow> 'r State \<Rightarrow> 'r State" where
  "updateStatus updates prev = prev\<lparr>status := updates (status prev)\<rparr>"

section \<open>handleResultSelect\<close>

text \<open>The function given to \<^verbatim>\<open>setState\<close> by \<^verbatim>\<open>handleResultSelect(resultId)\<close>.\<close>

definition handleResultSelect :: "string \<Rightarrow> 'r State \<Rightarrow> 'r State" where
  "handleResultSelect resultId prev =
     (if resultId \<in> set (selectedResults prev) then
        prev\<lparr>selectedResults := filter (\<lambda>i. i \<noteq> resultId) (selectedResults prev),
             reportPrompt :=
               (if length (selectedResults prev) \<le> 1 then '''' else reportPrompt prev)\<rparr>
      else if length (selectedResults prev) \<ge> MAX_SELECTIONS then prev
      else
        let newSelectedResults = selectedResults prev @ [resultId];
            newReportPrompt =
              (if \<not> isAgentMode prev \<and> length newSelectedResults = 1 \<and> reportPrompt prev = ''''
               then (case find (\<lambda>r. result_id r = resultId) (results prev) of
                       Some result \<Rightarrow>
                         ''Analyze and summarize the key points from '' @ name result
                     | None \<Rightarrow> reportPrompt prev)
               else reportPrompt prev)
        in prev\<lparr>selectedResults := newSelectedResults, reportPrompt := newReportPrompt\<rparr>)"

text \<open>A sequence of toggles, and the states it passes through.\<close>

fun toggles :: "string list \<Rightarrow> 'r State \<Rightarrow> 'r State" where
  "toggles [] s = s"
| "toggles (i # is) s = toggles is (handleResultSelect i s)"

section \<open>The remote services\<close>

text \<open>
  Modelled from the spec: the API routes that the page posts to are not among the sources.
  Their requests and bodies are those of the external interfaces of the specification,
  with the fields that the handlers send and read.

  What \<^verbatim>\<open>fetch\<close> resolves to: the status, the status text, and what
  \<^verbatim>\<open>response.json()\<close> gives, a value of the type the endpoint returns or what the
  parser throws.  \<^verbatim>\<open>response.ok\<close> holds for the statuses 200 to 299.
\<close>

record 'b Response =
  resp_status :: nat
  resp_statusText :: string
  resp_json :: "thrown + 'b"

definition resp_ok :: "'b Response \<Rightarrow> bool" where
  "resp_ok response = (200 \<le> resp_status response \<and> resp_status response \<le> 299)"

text \<open>
  The bodies, with the fields the handlers read.  An error body is an object with an
  \<^verbatim>\<open>error\<close> field; a field that is missing is \<open>None\<close>.  \<open>sb_value\<close> is
  \<^verbatim>\<open>webPages?.value\<close>.
\<close>

record OptimizeBody =
  ob_query :: string
  ob_optimizedPrompt :: string
  ob_explanation :: string
  ob_suggestedStructure :: "string list option"

record SearchBody =
  sb_value :: "SearchResult list option"
  sb_error :: "string option"

record AnalyzeBody =
  ab_rankings :: "RankingResult list"
  ab_analysis :: string

record ContentBody =
  cb_content :: "string option"
  cb_error :: "string option"

record AnalyzeItem =
  ai_title :: string
  ai_snippet :: string
  ai_url :: string
  ai_content :: "string option"

record ContentResult =
  cr_url :: string
  cr_title :: string
  cr_content :: string

record ReportRequest =
  rq_selectedResults :: "ContentResult list"
  rq_sources :: "SearchResult list"
  rq_prompt :: string
  rq_platformModel :: string

text \<open>
  The five endpoints the page posts to, the clock, and the URL parser.  Each request
  takes the world as it is and returns a response, or what \<^verbatim>\<open>fetch\<close> throws, and the
  world afterwards.  The type \<open>'r\<close> is the JSON value of the report endpoint, of which
  the page reads only the \<^verbatim>\<open>error\<close> field.
\<close>

record ('r, 'w) remote =
  api_optimize :: "string \<Rightarrow> string \<Rightarrow> 'w \<Rightarrow> (thrown + OptimizeBody Response) \<times> 'w"
  api_search :: "string \<Rightarrow> TimeFilter \<Rightarrow> bool option \<Rightarrow> 'w \<Rightarrow> (thrown + SearchBody Response) \<times> 'w"
  api_analyze ::
    "string \<Rightarrow> AnalyzeItem list \<Rightarrow> bool \<Rightarrow> string \<Rightarrow> 'w \<Rightarrow> (thrown + AnalyzeBody Response) \<times> 'w"
  api_fetch_content :: "string \<Rightarrow> 'w \<Rightarrow> (thrown + ContentBody Response) \<times> 'w"
  api_report :: "ReportRequest \<Rightarrow> 'w \<Rightarrow> (thrown + 'r Response) \<times> 'w"
  report_error :: "'r \<Rightarrow> string option"
  date_now :: "'w \<Rightarrow> nat"
  url_hostname :: "string \<Rightarrow> thrown + string"

section \<open>fetchContent and the resolution of one source\<close>

text \<open>
  \<^verbatim>\<open>fetchContent(url)\<close>.  Its \<^verbatim>\<open>catch\<close> block throws the error again in both of its
  branches.
\<close>

definition fetchContent ::
  "('r, 'w) remote \<Rightarrow> string \<Rightarrow> 'w \<Rightarrow> (thrown + ContentBody) \<times> 'w" where
  "fetchContent remote u w =
     (case api_fetch_content remote u w of
        (Inl err, w') \<Rightarrow> (Inl (if isRateLimitError err then err else err), w')
      | (Inr response, w') \<Rightarrow>
          if \<not> resp_ok response then
            (let errorData =
                   (case resp_json response of
                      Inl _ \<Rightarrow> Some ''Failed to fetch content''
                    | Inr body \<Rightarrow> cb_error body);
                 err = JsError (orElse errorData
                   (''Failed to fetch content: '' @ show_nat (resp_status response)))
             in (Inl (if isRateLimitError err then err else err), w'))
          else
            (case resp_json response of
               Inl err \<Rightarrow> (Inl (if isRateLimitError err then err else err), w')
             | Inr data \<Rightarrow> (Inr data, w')))"

text \<open>
  The two updates of the fetch status that the resolution makes through
  \<^verbatim>\<open>updateStatus\<close>.
\<close>

definition markFetched :: "string \<Rightarrow> 'r State \<Rightarrow> 'r State" where
  "markFetched u =
     updateStatus (\<lambda>prev. prev\<lparr>fetchStatus := (fetchStatus prev)
       \<lparr>fs_successful := fs_successful (fetchStatus prev) + 1,
        fs_sourceStatuses := (fs_sourceStatuses (fetchStatus prev))(u \<mapsto> Fetched)\<rparr>\<rparr>)"

definition markPreview :: "string \<Rightarrow> 'r State \<Rightarrow> 'r State" where
  "markPreview u =
     updateStatus (\<lambda>prev. prev\<lparr>fetchStatus := (fetchStatus prev)
       \<lparr>fs_fallback := fs_fallback (fetchStatus prev) + 1,
        fs_sourceStatuses := (fs_sourceStatuses (fetchStatus prev))(u \<mapsto> Preview)\<rparr>\<rparr>)"

text \<open>
  The callback mapped over the selected sources, the same in \<^verbatim>\<open>handleSearch\<close> and in
  \<^verbatim>\<open>handleAgentSearch\<close> but for a \<^verbatim>\<open>console.error\<close>.  Its result is what it returns
  or throws, the state, the URLs it has called \<^verbatim>\<open>fetchContent\<close> with, and the world.
\<close>

record ('r, 'w) resolved =
  res_outcome :: "thrown + ContentResult"
  res_state :: "'r State"
  res_fetches :: "string list"
  res_world :: 'w

definition usePreview :: "SearchResult \<Rightarrow> 'r State \<Rightarrow> 'w \<Rightarrow> ('r, 'w) resolved" where
  "usePreview article st w =
     \<lparr>res_outcome = Inr \<lparr>cr_url = url article, cr_title = name article,
        cr_content = snippet article\<rparr>,
      res_state = markPreview (url article) st, res_fetches = [url article], res_world = w\<rparr>"

text \<open>The \<^verbatim>\<open>try\<close> block around \<^verbatim>\<open>fetchContent\<close> and the fallback after it.\<close>

definition resolveByFetch ::
  "('r, 'w) remote \<Rightarrow> SearchResult \<Rightarrow> 'r State \<Rightarrow> 'w \<Rightarrow> ('r, 'w) resolved" where
  "resolveByFetch remote article st w =
     (case fetchContent remote (url article) w of
        (Inr data, w') \<Rightarrow>
          (case cb_content data of
             Some c \<Rightarrow>
               if c \<noteq> [] then
                 \<lparr>res_outcome = Inr \<lparr>cr_url = url article, cr_title = name article,
                    cr_content = c\<rparr>,
                  res_state = markFetched (url article) st, res_fetches = [url article],
                  res_world = w'\<rparr>
               else usePreview article st w'
           | None \<Rightarrow> usePreview article st w')
      | (Inl err, w') \<Rightarrow>
          if isRateLimitError err then
            \<lparr>res_outcome = Inl err, res_state = st, res_fetches = [url article],
             res_world = w'\<rparr>
          else usePreview article st w')"

definition resolveContent ::
  "('r, 'w) remote \<Rightarrow> SearchResult \<Rightarrow> 'r State \<Rightarrow> 'w \<Rightarrow> ('r, 'w) resolved" where
  "resolveContent remote article st w =
     (case content article of
        Some c \<Rightarrow>
          if c \<noteq> [] then
            \<lparr>res_outcome = Inr \<lparr>cr_url = url article, cr_title = name article, cr_content = c\<rparr>,
             res_state = markFetched (url article) st, res_fetches = [], res_world = w\<rparr>
          else resolveByFetch remote article st w
      | None \<Rightarrow> resolveByFetch remote article st w)"

text \<open>
  \<^verbatim>\<open>Promise.all(selected.map(async (article) => ...))\<close>.  Every callback runs, whatever
  the others do; the requests go out in the order of the list, and the model lets each
  answer arrive before the next request.  The promise is rejected when a callback throws:
  the model reports the first one in the order of the list.
\<close>

record ('r, 'w) resolvedAll =
  all_outcome :: "thrown + ContentResult list"
  all_state :: "'r State"
  all_fetches :: "string list"
  all_world :: 'w

fun promiseAll ::
  "thrown + ContentResult \<Rightarrow> thrown + ContentResult list \<Rightarrow> thrown + ContentResult list" where
  "promiseAll (Inl e) rest = Inl e"
| "promiseAll (Inr r) (Inl e) = Inl e"
| "promiseAll (Inr r) (Inr rs) = Inr (r # rs)"

fun resolveAll ::
  "('r, 'w) remote \<Rightarrow> SearchResult list \<Rightarrow> 'r State \<Rightarrow> 'w \<Rightarrow> ('r, 'w) resolvedAll" where
  "resolveAll remote [] st w =
     \<lparr>all_outcome = Inr [], all_state = st, all_fetches = [], all_world = w\<rparr>"
| "resolveAll remote (article # rest) st w =
     (let first = resolveContent remote article st w;
          others = resolveAll remote rest (res_state first) (res_world first)
      in \<lparr>all_outcome = promiseAll (res_outcome first) (all_outcome others),
          all_state = all_state others,
          all_fetches = res_fetches first @ all_fetches others,
          all_world = all_world others\<rparr>)"

section \<open>Ranking and the diversity heuristic (handleAgentSearch)\<close>

text \<open>\<^verbatim>\<open>x || 0\<close> on a number that may be missing.\<close>

fun orZero :: "real option \<Rightarrow> real" where
  "orZero None = 0"
| "orZero (Some x) = (if x = 0 then 0 else x)"

text \<open>
  \<^verbatim>\<open>rankedResults\<close>: every result gets the score the analyzer gave its URL, or 0,
  and the list is sorted with the comparator \<^verbatim>\<open>(b.score || 0) - (a.score || 0)\<close>.
  \<^verbatim>\<open>Array.prototype.sort\<close> is stable, as \<^const>\<open>sort_key\<close> is.
\<close>

definition rankedResults :: "SearchResult list \<Rightarrow> RankingResult list \<Rightarrow> SearchResult list" where
  "rankedResults allResults rankings =
     sort_key (\<lambda>r. - orZero (score r))
       (map (\<lambda>result. result\<lparr>score :=
               Some (orZero (map_option rank_score
                 (find (\<lambda>r. rank_url r = url result) rankings)))\<rparr>) allResults)"

text \<open>
  \<^verbatim>\<open>new URL(u).hostname\<close> is the browser's URL parser; it is a parameter \<open>hostname\<close>,
  which gives the host or what the constructor throws.  \<^verbatim>\<open>selectedUrls\<close> is a
  \<^verbatim>\<open>Set\<close>: its elements in insertion order, without repetition.
\<close>

definition set_add :: "string \<Rightarrow> string list \<Rightarrow> string list" where
  "set_add u us = (if u \<in> set us then us else us @ [u])"

text \<open>
  \<^verbatim>\<open>Array.from(selectedUrls).some((url) => new URL(url).hostname === domain)\<close>.
\<close>

fun hasSimilar ::
  "(string \<Rightarrow> thrown + string) \<Rightarrow> string \<Rightarrow> string list \<Rightarrow> thrown + bool" where
  "hasSimilar hostname domain [] = Inr False"
| "hasSimilar hostname domain (u # us) =
     (case hostname u of
        Inl e \<Rightarrow> Inl e
      | Inr h \<Rightarrow> if h = domain then Inr True else hasSimilar hostname domain us)"

text \<open>\<^verbatim>\<open>result.score && result.score > 0.5\<close>.\<close>

definition passesFloor :: "SearchResult \<Rightarrow> bool" where
  "passesFloor result = (case score result of None \<Rightarrow> False | Some x \<Rightarrow> x \<noteq> 0 \<and> x > 0.5)"

text \<open>
  The \<^verbatim>\<open>filter\<close> callback over \<^verbatim>\<open>rankedResults\<close>, with the set it fills; \<open>cap\<close>
  stands for \<^verbatim>\<open>CONFIG.search.maxSelectableResults\<close>.
\<close>

fun select_loop ::
  "nat \<Rightarrow> (string \<Rightarrow> thrown + string) \<Rightarrow> SearchResult list \<Rightarrow> string list
     \<Rightarrow> thrown + SearchResult list" where
  "select_loop cap hostname [] selectedUrls = Inr []"
| "select_loop cap hostname (result # rest) selectedUrls =
     (if length selectedUrls \<ge> cap then select_loop cap hostname rest selectedUrls
      else
        (case hostname (url result) of
           Inl e \<Rightarrow> Inl e
         | Inr domain \<Rightarrow>
             (case hasSimilar hostname domain selectedUrls of
                Inl e \<Rightarrow> Inl e
              | Inr similar \<Rightarrow>
                  if \<not> similar \<and> passesFloor result
                  then (case select_loop cap hostname rest (set_add (url result) selectedUrls) of
                          Inl e \<Rightarrow> Inl e
                        | Inr kept \<Rightarrow> Inr (result # kept))
                  else select_loop cap hostname rest selectedUrls)))"

definition selectDiverse ::
  "nat \<Rightarrow> (string \<Rightarrow> thrown + string) \<Rightarrow> SearchResult list \<Rightarrow> thrown + SearchResult list" where
  "selectDiverse cap hostname ranked = select_loop cap hostname ranked []"

section \<open>handleAgentSearch\<close>

text \<open>
  The closures given to \<^verbatim>\<open>retryWithBackoff\<close>.  Each posts one request and throws an
  \<^verbatim>\<open>Error\<close> when the response is not ok; the report closure returns the JSON of
  whatever response it gets.
\<close>

definition optimizeOperation ::
  "('r, 'w) remote \<Rightarrow> string \<Rightarrow> string \<Rightarrow> (OptimizeBody, 'w) operation" where
  "optimizeOperation remote prompt model w =
     (case api_optimize remote prompt model w of
        (Inl err, w') \<Rightarrow> (Inl err, w')
      | (Inr response, w') \<Rightarrow>
          if \<not> resp_ok response then
            (Inl (JsError (''Failed to optimize research: '' @ show_nat (resp_status response) @
               '' '' @ resp_statusText response)), w')
          else (resp_json response, w'))"

definition searchOperation ::
  "('r, 'w) remote \<Rightarrow> string \<Rightarrow> TimeFilter \<Rightarrow> (SearchBody, 'w) operation" where
  "searchOperation remote q tf w =
     (case api_search remote q tf (Some (isTestQuery q)) w of
        (Inl err, w') \<Rightarrow> (Inl err, w')
      | (Inr response, w') \<Rightarrow>
          if \<not> resp_ok response then
            (if resp_status response = 429 then (Inl (JsError ''Rate limit exceeded''), w')
             else if resp_status response = 403 then
               (Inl (JsError
                  ''Search quota exceeded. Please try again later or contact support.''), w')
             else (Inl (JsError ''Search failed''), w'))
          else (resp_json response, w'))"

definition analyzeOperation ::
  "('r, 'w) remote \<Rightarrow> string \<Rightarrow> AnalyzeItem list \<Rightarrow> bool \<Rightarrow> string \<Rightarrow> (AnalyzeBody, 'w) operation"
  where
  "analyzeOperation remote prompt items test model w =
     (case api_analyze remote prompt items test model w of
        (Inl err, w') \<Rightarrow> (Inl err, w')
      | (Inr response, w') \<Rightarrow>
          if \<not> resp_ok response then
            (Inl (JsError (''Failed to analyze results: '' @ show_nat (resp_status response) @
               '' '' @ resp_statusText response)), w')
          else (resp_json response, w'))"

definition reportOperation :: "('r, 'w) remote \<Rightarrow> ReportRequest \<Rightarrow> ('r, 'w) operation" where
  "reportOperation remote request w =
     (case api_report remote request w of
        (Inl err, w') \<Rightarrow> (Inl err, w')
      | (Inr response, w') \<Rightarrow> (resp_json response, w'))"

text \<open>
  Step 1: the optimized query and research prompt.  The separator of the suggested
  structure is an arrow (U+2192) between two spaces.
\<close>

definition arrow :: string where
  "arrow = [CHR 0x20, CHR 0xE2, CHR 0x86, CHR 0x92, CHR 0x20]"

definition agentOptimize ::
  "('r, 'w) remote \<Rightarrow> 'r State \<Rightarrow> 'r State \<Rightarrow> 'w \<Rightarrow> (thrown + OptimizeBody) \<times> 'r State \<times> 'w" where
  "agentOptimize remote state st w =
     (let r = retryWithBackoff
            (optimizeOperation remote (reportPrompt state) (selectedModel state)) 3 1000 w
      in case outcome r of
           Inl err \<Rightarrow> (Inl err, st, world r)
         | Inr body \<Rightarrow>
             (Inr body,
              updateStatus (\<lambda>prev. prev\<lparr>searchQueries := [ob_query body],
                  agentInsights := agentInsights prev @
                    [''Research strategy: '' @ ob_explanation body] @
                    (case ob_suggestedStructure body of
                       Some structure \<Rightarrow> [''Suggested structure: '' @ join arrow structure]
                     | None \<Rightarrow> [])\<rparr>)
                (st\<lparr>query := ob_query body\<rparr>),
              world r))"

text \<open>Step 2: the search with the optimized query, and the identifiers of its results.\<close>

definition allResults :: "nat \<Rightarrow> SearchResult list \<Rightarrow> SearchResult list" where
  "allResults timestamp searchResults =
     map (\<lambda>(idx, result). result\<lparr>result_id :=
            ''search-'' @ show_nat timestamp @ ''-'' @ show_nat idx @ ''-'' @ url result,
            score := Some 0\<rparr>)
       (enumerate 0 searchResults)"

definition agentSearch ::
  "('r, 'w) remote \<Rightarrow> 'r State \<Rightarrow> OptimizeBody \<Rightarrow> 'r State \<Rightarrow> 'w
     \<Rightarrow> (thrown + SearchResult list) \<times> 'r State \<times> 'w" where
  "agentSearch remote state body st w =
     (let st1 = updateStatus (\<lambda>prev. prev\<lparr>agentStep := StepSearching\<rparr>) st;
          r = retryWithBackoff (searchOperation remote (ob_query body) (timeFilter state))
                3 1000 w
      in case outcome r of
           Inl err \<Rightarrow> (Inl err, st1, world r)
         | Inr searchResponse \<Rightarrow>
             (let searchResults =
                    (case sb_value searchResponse of Some v \<Rightarrow> v | None \<Rightarrow> [])
              in if length searchResults = 0 then
                   (Inl (JsError ''No search results found. Please try a different query.''),
                    st1, world r)
                 else (Inr (allResults (date_now remote (world r)) searchResults), st1,
                    world r)))"

text \<open>Step 3: the analysis and the ranking.\<close>

definition analyzeItem :: "SearchResult \<Rightarrow> AnalyzeItem" where
  "analyzeItem r =
     \<lparr>ai_title = name r, ai_snippet = snippet r, ai_url = url r, ai_content = content r\<rparr>"

definition agentAnalyze ::
  "('r, 'w) remote \<Rightarrow> 'r State \<Rightarrow> OptimizeBody \<Rightarrow> SearchResult list \<Rightarrow> 'r State \<Rightarrow> 'w
     \<Rightarrow> (thrown + SearchResult list) \<times> 'r State \<times> 'w" where
  "agentAnalyze remote state body found st w =
     (let st1 = updateStatus (\<lambda>prev. prev\<lparr>agentStep := StepAnalyzing\<rparr>) st;
          r = retryWithBackoff
                (analyzeOperation remote (ob_optimizedPrompt body) (map analyzeItem found)
                   (isTestQuery (ob_query body)) (selectedModel state)) 3 1000 w
      in case outcome r of
           Inl err \<Rightarrow> (Inl err, st1, world r)
         | Inr analyzed \<Rightarrow>
             (let ranked = rankedResults found (ab_rankings analyzed)
              in if list_all (\<lambda>r. score r = Some 0) ranked then
                   (Inl (JsError ''No relevant results found. Please try a different query.''),
                    st1, world r)
                 else
                   (Inr ranked,
                    updateStatus (\<lambda>prev. prev\<lparr>agentInsights := agentInsights prev @
                        [''Analysis: '' @ ab_analysis analyzed,
                         ''Found '' @ show_nat (length ranked) @ '' relevant results'']\<rparr>) st1,
                    world r)))"

text \<open>
  The selection with the diversity heuristic.  The hosts counted for the insight have
  all been parsed by the heuristic already.
\<close>

definition agentSelect ::
  "('r, 'w) remote \<Rightarrow> SearchResult list \<Rightarrow> 'r State \<Rightarrow> (thrown + SearchResult list) \<times> 'r State"
  where
  "agentSelect remote ranked st =
     (case selectDiverse maxSelectableResults (url_hostname remote) ranked of
        Inl err \<Rightarrow> (Inl err, st)
      | Inr selected \<Rightarrow>
          if length selected = 0 then
            (Inl (JsError (''Could not find enough diverse, high-quality sources. '' @
               ''Please try a different query.'')), st)
          else
            (Inr selected,
             updateStatus (\<lambda>prev. prev\<lparr>agentInsights := agentInsights prev @
                 [''Selected '' @ show_nat (length selected) @ '' diverse sources from '' @
                  show_nat (length (remdups (map (\<lambda>s. url_hostname remote (url s)) selected))) @
                  '' unique domains'']\<rparr>)
               (st\<lparr>results := ranked, selectedResults := map result_id selected\<rparr>)))"

text \<open>Step 4: the contents of the selected sources, and the report.\<close>

definition initialFetchStatus :: "nat \<Rightarrow> FetchStatus" where
  "initialFetchStatus n =
     \<lparr>fs_total = n, fs_successful = 0, fs_fallback = 0, fs_sourceStatuses = Map.empty\<rparr>"

text \<open>The two updates of the status before the contents are resolved.\<close>

definition startGenerating :: "nat \<Rightarrow> 'r State \<Rightarrow> 'r State" where
  "startGenerating n st =
     updateStatus (\<lambda>prev. prev\<lparr>fetchStatus := initialFetchStatus n\<rparr>)
       (updateStatus (\<lambda>prev. prev\<lparr>agentStep := StepGenerating\<rparr>) st)"

definition agentReportRequest ::
  "'r State \<Rightarrow> OptimizeBody \<Rightarrow> SearchResult list \<Rightarrow> ContentResult list \<Rightarrow> ReportRequest" where
  "agentReportRequest state body selected contentResults =
     \<lparr>rq_selectedResults = filter (\<lambda>r. trim (cr_content r) \<noteq> []) contentResults,
      rq_sources = selected,
      rq_prompt = ob_optimizedPrompt body @ ''. Provide comprehensive analysis.'',
      rq_platformModel = selectedModel state\<rparr>"

definition agentGenerate ::
  "('r, 'w) remote \<Rightarrow> 'r State \<Rightarrow> OptimizeBody \<Rightarrow> SearchResult list \<Rightarrow> 'r State \<Rightarrow> 'w
     \<Rightarrow> (thrown + unit) \<times> 'r State \<times> 'w" where
  "agentGenerate remote state body selected st w =
     (let resolved = resolveAll remote selected (startGenerating (length selected) st) w
      in case all_outcome resolved of
           Inl err \<Rightarrow> (Inl err, all_state resolved, all_world resolved)
         | Inr contentResults \<Rightarrow>
             (let r = retryWithBackoff
                    (reportOperation remote
                       (agentReportRequest state body selected contentResults))
                    3 1000 (all_world resolved)
              in case outcome r of
                   Inl err \<Rightarrow> (Inl err, all_state resolved, world r)
                 | Inr reportResponse \<Rightarrow>
                     (Inr (),
                      updateStatus (\<lambda>prev. prev\<lparr>agentInsights := agentInsights prev @
                          [''Report generated successfully''], agentStep := StepIdle\<rparr>)
                        ((all_state resolved)\<lparr>report := Some reportResponse,
                           activeTab := ''report''\<rparr>),
                      world r)))"

text \<open>The \<^verbatim>\<open>try\<close> block: the four steps, each on the state the one before left.\<close>

definition agentTry ::
  "('r, 'w) remote \<Rightarrow> 'r State \<Rightarrow> 'r State \<Rightarrow> 'w \<Rightarrow> (thrown + unit) \<times> 'r State \<times> 'w" where
  "agentTry remote state st w =
     (case agentOptimize remote state st w of
        (Inl err, st1, w1) \<Rightarrow> (Inl err, st1, w1)
      | (Inr body, st1, w1) \<Rightarrow>
          (case agentSearch remote state body st1 w1 of
             (Inl err, st2, w2) \<Rightarrow> (Inl err, st2, w2)
           | (Inr found, st2, w2) \<Rightarrow>
               (case agentAnalyze remote state body found st2 w2 of
                  (Inl err, st3, w3) \<Rightarrow> (Inl err, st3, w3)
                | (Inr ranked, st3, w3) \<Rightarrow>
                    (case agentSelect remote ranked st3 of
                       (Inl err, st4) \<Rightarrow> (Inl err, st4, w3)
                     | (Inr selected, st4) \<Rightarrow>
                         agentGenerate remote state body selected st4 w3))))"

text \<open>
  \<^verbatim>\<open>handleAgentSearch\<close>, run on the state \<open>state\<close> with no other handler in between:
  the state afterwards, the toasts shown, and the world.
\<close>

definition handleAgentSearch ::
  "('r, 'w) remote \<Rightarrow> 'r State \<Rightarrow> 'w \<Rightarrow> 'r State \<times> toast list \<times> 'w" where
  "handleAgentSearch remote state w =
     (if trim (reportPrompt state) = [] then
        (state, [(''Missing Information'', ''Please provide a research topic'')], w)
      else
        (let st0 = (updateStatus (\<lambda>prev. prev\<lparr>agentStep := StepProcessing,
                      agentInsights := [], searchQueries := []\<rparr>) state)
                     \<lparr>error := None, results := [], selectedResults := [], report := None\<rparr>
         in case agentTry remote state st0 w of
              (Inl err, st, w') \<Rightarrow>
                (fst (handleError err ''Agent Error'' st),
                 snd (handleError err ''Agent Error'' st), w')
            | (Inr u, st, w') \<Rightarrow> (st, [], w')))"

section \<open>handleSearch\<close>

text \<open>
  \<^verbatim>\<open>newResults\<close>: every result of the response gets the identifier
  \<^verbatim>\<open>search-${Date.now()}-${result.id || result.url}\<close>; the clock is read once for
  all of them.
\<close>

definition newResults :: "nat \<Rightarrow> SearchResult list \<Rightarrow> SearchResult list" where
  "newResults now value =
     map (\<lambda>result. result\<lparr>result_id :=
            ''search-'' @ show_nat now @ ''-'' @
              (if result_id result \<noteq> '''' then result_id result else url result)\<rparr>) value"

text \<open>
  The function given to \<^verbatim>\<open>setState\<close> once the response is there: the old results
  that are custom or selected, then the new results whose URL no old result has.
\<close>

definition mergeResults :: "SearchResult list \<Rightarrow> 'r State \<Rightarrow> 'r State" where
  "mergeResults new prev =
     prev\<lparr>results :=
            filter (\<lambda>r. isCustomUrl r \<or> result_id r \<in> set (selectedResults prev)) (results prev) @
            filter (\<lambda>newResult. \<not> list_ex (\<lambda>existing. url existing = url newResult) (results prev))
              new,
          error := None\<rparr>"

definition manualSearchOperation ::
  "('r, 'w) remote \<Rightarrow> string \<Rightarrow> TimeFilter \<Rightarrow> (SearchBody, 'w) operation" where
  "manualSearchOperation remote q tf w =
     (case api_search remote q tf None w of
        (Inl err, w') \<Rightarrow> (Inl err, w')
      | (Inr res, w') \<Rightarrow>
          if \<not> resp_ok res then
            (let errorData =
                   (case resp_json res of Inl _ \<Rightarrow> Some ''Search failed''
                    | Inr body \<Rightarrow> sb_error body)
             in (Inl (JsError (orElse errorData
                   (''Search failed: '' @ show_nat (resp_status res)))), w'))
          else (resp_json res, w'))"

definition manualReportOperation ::
  "('r, 'w) remote \<Rightarrow> ReportRequest \<Rightarrow> ('r, 'w) operation" where
  "manualReportOperation remote request w =
     (case api_report remote request w of
        (Inl err, w') \<Rightarrow> (Inl err, w')
      | (Inr res, w') \<Rightarrow>
          if \<not> resp_ok res then
            (let errorData =
                   (case resp_json res of Inl _ \<Rightarrow> Some ''Failed to generate report''
                    | Inr body \<Rightarrow> report_error remote body)
             in (Inl (JsError (orElse errorData
                   (''Failed to generate report: '' @ show_nat (resp_status res)))), w'))
          else (resp_json res, w'))"

text \<open>
  \<^verbatim>\<open>handleSearch\<close>: with sources selected, and not in agent mode, it generates the
  report from them; otherwise it searches and merges the response into the results.
\<close>

definition handleSearch ::
  "('r, 'w) remote \<Rightarrow> 'r State \<Rightarrow> 'w \<Rightarrow> 'r State \<times> toast list \<times> 'w" where
  "handleSearch remote state w =
     (if trim (query state) = [] then (state, [], w)
      else if length (selectedResults state) > 0 \<and> \<not> isAgentMode state then
        (let st1 = (updateStatus (\<lambda>prev. prev\<lparr>generatingReport := True\<rparr>) state)
                     \<lparr>error := None\<rparr>;
             st2 = updateStatus (\<lambda>prev. prev\<lparr>fetchStatus :=
                     initialFetchStatus (length (selectedResults state))\<rparr>) st1;
             sources = filter (\<lambda>r. result_id r \<in> set (selectedResults state)) (results state);
             resolved = resolveAll remote sources st2 w;
             finished =
               (case all_outcome resolved of
                  Inl err \<Rightarrow>
                    (fst (handleError err ''Report Generation Failed'' (all_state resolved)),
                     snd (handleError err ''Report Generation Failed'' (all_state resolved)),
                     all_world resolved)
                | Inr contentResults \<Rightarrow>
                    (let r = retryWithBackoff
                           (manualReportOperation remote
                              \<lparr>rq_selectedResults =
                                 filter (\<lambda>r. trim (cr_content r) \<noteq> []) contentResults,
                               rq_sources = sources,
                               rq_prompt = query state @ ''. Provide comprehensive analysis.'',
                               rq_platformModel = selectedModel state\<rparr>)
                           3 1000 (all_world resolved)
                     in case outcome r of
                          Inl err \<Rightarrow>
                            (fst (handleError err ''Report Generation Failed''
                               (all_state resolved)),
                             snd (handleError err ''Report Generation Failed''
                               (all_state resolved)),
                             world r)
                        | Inr response \<Rightarrow>
                            ((all_state resolved)\<lparr>report := Some response,
                               activeTab := ''report''\<rparr>, [], world r)))
         in (updateStatus (\<lambda>prev. prev\<lparr>generatingReport := False\<rparr>) (fst finished),
             fst (snd finished), snd (snd finished)))
      else
        (let st1 = (updateStatus (\<lambda>prev. prev\<lparr>loading := True\<rparr>) state)
                     \<lparr>error := None, reportPrompt := ''''\<rparr>;
             r = retryWithBackoff (manualSearchOperation remote (query state) (timeFilter state))
                   3 1000 w;
             finished =
               (case outcome r of
                  Inl err \<Rightarrow> handleError err ''Search Error'' st1
                | Inr response \<Rightarrow>
                    (mergeResults
                       (newResults (date_now remote (world r))
                          (case sb_value response of Some v \<Rightarrow> v | None \<Rightarrow> []))
                       st1, []))
         in (updateStatus (\<lambda>prev. prev\<lparr>loading := False\<rparr>) (fst finished), snd finished, world r)))"

section \<open>Example inputs\<close>

text \<open>
  An operation to run the loop on: the world is the number of invocations so far; it throws
  \<^verbatim>\<open>Error('Failed to fetch content: 429')\<close> twice and then returns 42.
\<close>

definition flaky :: "(nat, nat) operation" where
  "flaky k = (if k < 2 then Inl (JsError ''Failed to fetch content: 429'') else Inr 42, Suc k)"

text \<open>
  A stand-in for the URL parser, to run the selection on: the host of a URL of the form
  \<^verbatim>\<open>https://host/path\<close>; anything else is rejected as the constructor rejects a
  string that is no URL.
\<close>

definition example_hostname :: "string \<Rightarrow> thrown + string" where
  "example_hostname u =
     (if take 8 u = ''https://'' \<and> takeWhile (\<lambda>c. c \<noteq> CHR ''/'') (drop 8 u) \<noteq> []
      then Inr (takeWhile (\<lambda>c. c \<noteq> CHR ''/'') (drop 8 u))
      else Inl (JsError ''Invalid URL''))"

text \<open>A result as the search provider returns it: no identifier, no content, no score.\<close>

definition example_result :: "string \<Rightarrow> string \<Rightarrow> SearchResult" where
  "example_result u text =
     \<lparr>result_id = '''', url = u, name = ''Page '' @ u, snippet = text, content = None,
      score = None, isCustomUrl = False\<rparr>"

text \<open>Five results on four hosts, and the scores of scenario B.\<close>

definition scenarioB_results :: "SearchResult list" where
  "scenarioB_results =
     [example_result ''https://a.example/1'' ''one'',
      example_result ''https://a.example/2'' ''two'',
      example_result ''https://b.example/'' ''three'',
      example_result ''https://c.example/'' ''four'',
      example_result ''https://d.example/'' ''five'']"

definition scenarioB_rankings :: "RankingResult list" where
  "scenarioB_rankings =
     [\<lparr>rank_url = ''https://a.example/1'', rank_score = 0.9\<rparr>,
      \<lparr>rank_url = ''https://a.example/2'', rank_score = 0.8\<rparr>,
      \<lparr>rank_url = ''https://b.example/'', rank_score = 0.6\<rparr>,
      \<lparr>rank_url = ''https://c.example/'', rank_score = 0.4\<rparr>,
      \<lparr>rank_url = ''https://d.example/'', rank_score = 0.9\<rparr>]"

text \<open>
  A service to run the handlers on.  The world counts the requests made.  The optimizer
  answers with the prompt as the query and \<^verbatim>\<open>p\<close> as the optimized prompt; the search
  finds nothing for the query \<^verbatim>\<open>test\<close> and the five pages of scenario B for any
  other; the analyzer gives the scores of scenario B; the content of
  \<^verbatim>\<open>https://d.example/\<close> cannot be fetched (status 500), that of
  \<^verbatim>\<open>https://c.example/\<close> is rate limited (status 429), every other page has a text;
  the report is the number of sources it was given.
\<close>

definition example_remote :: "(nat, nat) remote" where
  "example_remote =
     \<lparr>api_optimize = (\<lambda>prompt model w.
        (Inr \<lparr>resp_status = 200, resp_statusText = ''OK'',
           resp_json = Inr \<lparr>ob_query = prompt, ob_optimizedPrompt = ''p'',
             ob_explanation = ''as asked'', ob_suggestedStructure = None\<rparr>\<rparr>, Suc w)),
      api_search = (\<lambda>q tf test w.
        (Inr \<lparr>resp_status = 200, resp_statusText = ''OK'',
           resp_json = Inr \<lparr>sb_value = Some (if q = ''test'' then [] else scenarioB_results),
             sb_error = None\<rparr>\<rparr>, Suc w)),
      api_analyze = (\<lambda>prompt items test model w.
        (Inr \<lparr>resp_status = 200, resp_statusText = ''OK'',
           resp_json = Inr \<lparr>ab_rankings = scenarioB_rankings, ab_analysis = ''ranked''\<rparr>\<rparr>,
         Suc w)),
      api_fetch_content = (\<lambda>u w.
        (if u = ''https://d.example/'' then
           Inr \<lparr>resp_status = 500, resp_statusText = ''Internal Server Error'',
             resp_json = Inr \<lparr>cb_content = None, cb_error = Some ''upstream down''\<rparr>\<rparr>
         else if u = ''https://c.example/'' then
           Inr \<lparr>resp_status = 429, resp_statusText = ''Too Many Requests'',
             resp_json = Inr \<lparr>cb_content = None, cb_error = None\<rparr>\<rparr>
         else
           Inr \<lparr>resp_status = 200, resp_statusText = ''OK'',
             resp_json = Inr \<lparr>cb_content = Some (''text of '' @ u), cb_error = None\<rparr>\<rparr>,
         Suc w)),
      api_report = (\<lambda>request w.
        (Inr \<lparr>resp_status = 200, resp_statusText = ''OK'',
           resp_json = Inr (length (rq_selectedResults request))\<rparr>, Suc w)),
      report_error = (\<lambda>r. None),
      date_now = (\<lambda>w. 1000 + w),
      url_hostname = example_hostname\<rparr>"

text \<open>The state when the user has typed a research topic in agent mode.\<close>

definition example_state :: "string \<Rightarrow> nat State" where
  "example_state prompt = (initialState ''m'')\<lparr>reportPrompt := prompt, isAgentMode := True\<rparr>"

text \<open>A source that comes with its content, as an uploaded file does.\<close>

definition example_upload :: SearchResult where
  "example_upload =
     \<lparr>result_id = ''file-1'', url = ''notes.txt'', name = ''notes.txt'', snippet = ''notes'',
      content = Some ''all the notes'', score = None, isCustomUrl = True\<rparr>"

section \<open>Facts about strings\<close>

lemma includes_iff: "str_includes s sub \<longleftrightarrow> (\<exists>p q. s = p @ sub @ q)"
proof (induction s)
  case Nil
  then show ?case by auto
next
  case (Cons c cs)
  have "take (length sub) (c # cs) = sub \<longleftrightarrow> (\<exists>q. c # cs = sub @ q)"
    by (metis append_eq_conv_conj append_take_drop_id)
  moreover have "(\<exists>p q. c # cs = p @ sub @ q) \<longleftrightarrow>
      (\<exists>q. c # cs = sub @ q) \<or> (\<exists>p q. cs = p @ sub @ q)"
  proof
    assume "\<exists>p q. c # cs = p @ sub @ q"
    then obtain p q where pq: "c # cs = p @ sub @ q" by blast
    show "(\<exists>q. c # cs = sub @ q) \<or> (\<exists>p q. cs = p @ sub @ q)"
    proof (cases p)
      case Nil
      with pq show ?thesis by auto
    next
      case (Cons a p')
      with pq have "cs = p' @ sub @ q" by simp
      then show ?thesis by blast
    qed
  next
    assume "(\<exists>q. c # cs = sub @ q) \<or> (\<exists>p q. cs = p @ sub @ q)"
    then show "\<exists>p q. c # cs = p @ sub @ q"
    proof
      assume "\<exists>q. c # cs = sub @ q"
      then show ?thesis by (metis append_Nil)
    next
      assume "\<exists>p q. cs = p @ sub @ q"
      then obtain p q where "cs = p @ sub @ q" by blast
      then have "c # cs = (c # p) @ sub @ q" by simp
      then show ?thesis by blast
    qed
  qed
  ultimately show ?case using Cons.IH by simp
qed

lemma trim_test: "trim ''test'' \<noteq> []" and trim_q: "trim ''quantum'' \<noteq> []"
  by (simp_all add: trim_def whiteSpace_def)

lemma trim_cats: "trim ''cats'' \<noteq> []"
  by (simp add: trim_def whiteSpace_def)

section \<open>The retry loop\<close>

lemma retry_loop_step:
  "i < maxRetries \<Longrightarrow> operation w = (Inl e, w') \<Longrightarrow> isRateLimitError e \<Longrightarrow>
   retry_loop operation maxRetries baseDelay i lastError n ds w =
   retry_loop operation maxRetries baseDelay (Suc i) e (Suc n) (ds @ [baseDelay * 2 ^ i]) w'"
  by simp

lemma retry_loop_return:
  "i < maxRetries \<Longrightarrow> operation w = (Inr v, w') \<Longrightarrow>
   retry_loop operation maxRetries baseDelay i lastError n ds w =
   \<lparr>outcome = Inr v, invocations = Suc n, delays = ds, world = w'\<rparr>"
  by simp

lemma retry_loop_throw:
  "i < maxRetries \<Longrightarrow> operation w = (Inl e, w') \<Longrightarrow> \<not> isRateLimitError e \<Longrightarrow>
   retry_loop operation maxRetries baseDelay i lastError n ds w =
   \<lparr>outcome = Inl e, invocations = Suc n, delays = ds, world = w'\<rparr>"
  by simp

lemma retry_loop_exhausted:
  "\<not> i < maxRetries \<Longrightarrow>
   retry_loop operation maxRetries baseDelay i lastError n ds w =
   \<lparr>outcome = Inl lastError, invocations = n, delays = ds, world = w\<rparr>"
  by simp

declare retry_loop.simps [simp del]

lemma retry_loop_mono:
  "n \<le> invocations (retry_loop operation maxRetries baseDelay i lastError n ds w) \<and>
   take (length ds) (delays (retry_loop operation maxRetries baseDelay i lastError n ds w)) = ds"
proof (induction operation maxRetries baseDelay i lastError n ds w rule: retry_loop.induct)
  case (1 operation maxRetries baseDelay i lastError n ds w)
  show ?case
  proof (cases "i < maxRetries")
    case False
    then show ?thesis by (simp add: retry_loop_exhausted)
  next
    case True
    obtain res w' where op: "operation w = (res, w')" by (cases "operation w")
    show ?thesis
    proof (cases res)
      case (Inr v)
      with True op show ?thesis by (simp add: retry_loop_return)
    next
      case (Inl e)
      show ?thesis
      proof (cases "isRateLimitError e")
        case False
        with True op Inl show ?thesis by (simp add: retry_loop_throw)
      next
        case rate: True
        from "1.IH" [OF True op [symmetric] Inl rate]
        have IH: "Suc n \<le> invocations (retry_loop operation maxRetries baseDelay (Suc i) e (Suc n)
              (ds @ [baseDelay * 2 ^ i]) w') \<and>
            take (length (ds @ [baseDelay * 2 ^ i]))
              (delays (retry_loop operation maxRetries baseDelay (Suc i) e (Suc n)
                (ds @ [baseDelay * 2 ^ i]) w')) = ds @ [baseDelay * 2 ^ i]"
          by simp
        have eq: "retry_loop operation maxRetries baseDelay i lastError n ds w =
            retry_loop operation maxRetries baseDelay (Suc i) e (Suc n) (ds @ [baseDelay * 2 ^ i]) w'"
          using True op Inl rate by (simp add: retry_loop_step)
        from IH have "take (length ds) (delays (retry_loop operation maxRetries baseDelay (Suc i) e
            (Suc n) (ds @ [baseDelay * 2 ^ i]) w')) = ds"
          by (metis append_eq_conv_conj append.assoc append_take_drop_id)
        with IH eq show ?thesis by simp
      qed
    qed
  qed
qed

lemma retry_loop_invoked:
  assumes "i < maxRetries"
  shows "Suc n \<le> invocations (retry_loop operation maxRetries baseDelay i lastError n ds w)"
proof -
  obtain res w' where op: "operation w = (res, w')" by (cases "operation w")
  show ?thesis
  proof (cases res)
    case (Inr v)
    with assms op show ?thesis by (simp add: retry_loop_return)
  next
    case (Inl e)
    show ?thesis
    proof (cases "isRateLimitError e")
      case False
      with assms op Inl show ?thesis by (simp add: retry_loop_throw)
    next
      case True
      then have "retry_loop operation maxRetries baseDelay i lastError n ds w =
          retry_loop operation maxRetries baseDelay (Suc i) e (Suc n) (ds @ [baseDelay * 2 ^ i]) w'"
        using assms op Inl by (simp add: retry_loop_step)
      then show ?thesis
        using retry_loop_mono [of "Suc n" operation maxRetries baseDelay "Suc i" e
            "ds @ [baseDelay * 2 ^ i]" w']
        by simp
    qed
  qed
qed


lemma retry_loop_again:
  assumes "Suc i < maxRetries" and "operation w = (Inl e, w')" and "isRateLimitError e"
  shows "Suc (Suc n) \<le> invocations (retry_loop operation maxRetries baseDelay i lastError n ds w) \<and>
    take (Suc (length ds)) (delays (retry_loop operation maxRetries baseDelay i lastError n ds w)) =
      ds @ [baseDelay * 2 ^ i]"
proof -
  have eq: "retry_loop operation maxRetries baseDelay i lastError n ds w =
      retry_loop operation maxRetries baseDelay (Suc i) e (Suc n) (ds @ [baseDelay * 2 ^ i]) w'"
    using assms by (simp add: retry_loop_step)
  have "Suc (Suc n) \<le> invocations
      (retry_loop operation maxRetries baseDelay (Suc i) e (Suc n) (ds @ [baseDelay * 2 ^ i]) w')"
    using assms(1) by (rule retry_loop_invoked)
  moreover have "take (length (ds @ [baseDelay * 2 ^ i])) (delays
      (retry_loop operation maxRetries baseDelay (Suc i) e (Suc n) (ds @ [baseDelay * 2 ^ i]) w')) =
      ds @ [baseDelay * 2 ^ i]"
    using retry_loop_mono [of "Suc n" operation maxRetries baseDelay "Suc i" e
        "ds @ [baseDelay * 2 ^ i]" w'] by (rule conjunct2)
  ultimately show ?thesis using eq by simp
qed

section \<open>Claims about retryWithBackoff\<close>

text \<open>
  Claim C3.  An operation that throws a rate-limit failure on its first and on its
  second invocation and returns \<open>v\<close> on its third: \<^verbatim>\<open>retryWithBackoff\<close> with
  \<open>maxRetries = 3\<close> returns \<open>v\<close>, the operation has been invoked exactly three
  times, and the two waits were \<open>baseDelay\<close> and \<open>2 * baseDelay\<close>.
\<close>

theorem retryWithBackoff_third_attempt:
  assumes "operation w0 = (Inl e1, w1)" and "isRateLimitError e1"
    and "operation w1 = (Inl e2, w2)" and "isRateLimitError e2"
    and "operation w2 = (Inr v, w3)"
  shows "retryWithBackoff operation 3 baseDelay w0 =
    \<lparr>outcome = Inr v, invocations = 3, delays = [baseDelay, 2 * baseDelay], world = w3\<rparr>"
proof -
  have "retryWithBackoff operation 3 baseDelay w0 =
      retry_loop operation 3 baseDelay 1 e1 1 [baseDelay] w1"
    unfolding retryWithBackoff_def using assms(1,2)
    by (simp add: retry_loop_step)
  also have "\<dots> = retry_loop operation 3 baseDelay 2 e2 2 [baseDelay, 2 * baseDelay] w2"
    using retry_loop_step [of 1 3 operation w1 e2 w2 baseDelay e1 1 "[baseDelay]"] assms(3,4)
    by (simp add: numeral_2_eq_2)
  also have "\<dots> =
      \<lparr>outcome = Inr v, invocations = 3, delays = [baseDelay, 2 * baseDelay], world = w3\<rparr>"
    using retry_loop_return [of 2 3 operation w2 v w3] assms(5)
    by (simp add: numeral_3_eq_3)
  finally show ?thesis .
qed

theorem retryWithBackoff_third_attempt_witness:
  "retryWithBackoff flaky 3 1000 0 =
    \<lparr>outcome = Inr 42, invocations = 3, delays = [1000, 2000], world = 3\<rparr>"
  using retryWithBackoff_third_attempt
    [of flaky 0 "JsError ''Failed to fetch content: 429''" 1
        "JsError ''Failed to fetch content: 429''" 2 42 3 1000]
  by (simp add: flaky_def)

section \<open>The selection toggle\<close>

lemma handleResultSelect_length:
  "length (selectedResults (handleResultSelect i s)) \<le>
     max MAX_SELECTIONS (length (selectedResults s))"
  unfolding handleResultSelect_def Let_def
  by (auto simp: le_max_iff_disj intro: le_trans [OF length_filter_le])

lemma handleResultSelect_cap:
  "length (selectedResults s) \<le> MAX_SELECTIONS \<Longrightarrow>
   length (selectedResults (handleResultSelect i s)) \<le> MAX_SELECTIONS"
  using handleResultSelect_length [of i s] by simp

lemma toggles_cap:
  "length (selectedResults s) \<le> MAX_SELECTIONS \<Longrightarrow>
   length (selectedResults (toggles ids s)) \<le> MAX_SELECTIONS"
  by (induction ids arbitrary: s) (simp_all add: handleResultSelect_cap)

lemma toggles_length:
  "length (selectedResults (toggles ids s)) \<le> max MAX_SELECTIONS (length (selectedResults s))"
proof (induction ids arbitrary: s)
  case Nil
  then show ?case by simp
next
  case (Cons i ids)
  have "length (selectedResults (toggles ids (handleResultSelect i s))) \<le>
      max MAX_SELECTIONS (length (selectedResults (handleResultSelect i s)))"
    by (rule Cons.IH)
  also have "\<dots> \<le> max MAX_SELECTIONS (length (selectedResults s))"
    using handleResultSelect_length [of i s] by simp
  finally show ?case by simp
qed

lemma handleResultSelect_full:
  "MAX_SELECTIONS \<le> length (selectedResults s) \<Longrightarrow> i \<notin> set (selectedResults s) \<Longrightarrow>
   handleResultSelect i s = s"
  by (simp add: handleResultSelect_def)

lemma double_toggle:
  assumes "length (selectedResults s) \<le> MAX_SELECTIONS"
  shows "set (selectedResults (handleResultSelect i (handleResultSelect i s))) =
    set (selectedResults s)"
proof (cases "i \<in> set (selectedResults s)")
  case True
  let ?s1 = "handleResultSelect i s"
  have sel1: "selectedResults ?s1 = filter (\<lambda>j. j \<noteq> i) (selectedResults s)"
    using True by (simp add: handleResultSelect_def)
  have "length (filter (\<lambda>j. j \<noteq> i) (selectedResults s)) < length (selectedResults s)"
    using True by (simp add: length_filter_less)
  then have lt: "length (selectedResults ?s1) < MAX_SELECTIONS"
    using assms sel1 by simp
  have notin: "i \<notin> set (selectedResults ?s1)"
    using sel1 by simp
  have "selectedResults (handleResultSelect i ?s1) = selectedResults ?s1 @ [i]"
    using lt notin by (simp add: handleResultSelect_def [of i ?s1] Let_def)
  then show ?thesis using sel1 True by auto
next
  case False
  show ?thesis
  proof (cases "MAX_SELECTIONS \<le> length (selectedResults s)")
    case True
    then show ?thesis using False by (simp add: handleResultSelect_full)
  next
    case nf: False
    let ?s1 = "handleResultSelect i s"
    have sel1: "selectedResults ?s1 = selectedResults s @ [i]"
      using False nf by (simp add: handleResultSelect_def Let_def)
    then have "i \<in> set (selectedResults ?s1)" by simp
    then have "selectedResults (handleResultSelect i ?s1) =
        filter (\<lambda>j. j \<noteq> i) (selectedResults ?s1)"
      by (simp add: handleResultSelect_def [of i ?s1])
    then show ?thesis using sel1 False by auto
  qed
qed

lemma toggles_abc:
  "selectedResults (toggles [''a'', ''b'', ''c''] (initialState ''m'' :: string State)) =
     [''a'', ''b'', ''c'']"
  by (simp add: handleResultSelect_def initialState_def MAX_SELECTIONS_def
      maxSelectableResults_def Let_def)

section \<open>Claims about the selection toggle\<close>

text \<open>
  Claim C8.  From a state whose selection has at most \<^verbatim>\<open>MAX_SELECTIONS\<close> members (the
  initial state has none), the selection has at most \<^verbatim>\<open>MAX_SELECTIONS\<close> members after
  every toggle of every sequence of toggles; from any state at all it never grows beyond
  the larger of its length and \<^verbatim>\<open>MAX_SELECTIONS\<close>.  A toggle that would add an
  identifier to a selection that is full leaves the state as it is.
\<close>

theorem toggles_within_cap:
  "(length (selectedResults s) \<le> MAX_SELECTIONS \<longrightarrow>
      (\<forall>k. length (selectedResults (toggles (take k ids) s)) \<le> MAX_SELECTIONS)) \<and>
   (\<forall>k. length (selectedResults (toggles (take k ids) s)) \<le>
      max MAX_SELECTIONS (length (selectedResults s))) \<and>
   (MAX_SELECTIONS \<le> length (selectedResults s) \<and> resultId \<notin> set (selectedResults s) \<longrightarrow>
      handleResultSelect resultId s = s)"
  by (simp add: toggles_cap toggles_length handleResultSelect_full)

theorem toggles_within_cap_witness:
  "length (selectedResults (initialState ''m'' :: string State)) \<le> MAX_SELECTIONS \<and>
   length (selectedResults
     (toggles (take 4 [''a'', ''b'', ''c'', ''d'']) (initialState ''m'' :: string State))) \<le>
     MAX_SELECTIONS \<and>
   MAX_SELECTIONS \<le>
     length (selectedResults (toggles [''a'', ''b'', ''c''] (initialState ''m'' :: string State))) \<and>
   ''d'' \<notin> set (selectedResults (toggles [''a'', ''b'', ''c''] (initialState ''m'' :: string State))) \<and>
   handleResultSelect ''d'' (toggles [''a'', ''b'', ''c''] (initialState ''m'' :: string State)) =
     toggles [''a'', ''b'', ''c''] (initialState ''m'')"
proof -
  have 0: "length (selectedResults (initialState ''m'' :: string State)) \<le> MAX_SELECTIONS"
    by (simp add: initialState_def)
  have 1: "MAX_SELECTIONS \<le>
     length (selectedResults (toggles [''a'', ''b'', ''c''] (initialState ''m'' :: string State)))"
    unfolding toggles_abc by (simp add: MAX_SELECTIONS_def maxSelectableResults_def)
  have 2: "''d'' \<notin>
      set (selectedResults (toggles [''a'', ''b'', ''c''] (initialState ''m'' :: string State)))"
    unfolding toggles_abc by simp
  show ?thesis
    using toggles_within_cap [of "initialState ''m'' :: string State" "[''a'', ''b'', ''c'', ''d'']"]
      toggles_within_cap [of "toggles [''a'', ''b'', ''c''] (initialState ''m'' :: string State)"
        "[]" "''d''"] 0 1 2
    by blast
qed

text \<open>
  Claim C9, as stated, fails: from the initial state, toggling \<open>a\<close> once selects it and
  toggling it again deselects it, so two toggles do not give the selection of one.
\<close>

theorem toggle_twice_differs:
  "set (selectedResults
     (handleResultSelect ''a'' (handleResultSelect ''a'' (initialState ''m'' :: string State)))) \<noteq>
   set (selectedResults (handleResultSelect ''a'' (initialState ''m'' :: string State)))"
  by (simp add: handleResultSelect_def initialState_def MAX_SELECTIONS_def
      maxSelectableResults_def Let_def)

text \<open>
  Claim C9, amended.  In a state whose selection is within the cap, toggling the same
  identifier twice in succession gives back the set of selected identifiers the state had
  before; it gives the set that one toggle gives exactly when the toggle changes nothing,
  that is when the identifier is not selected and the selection is full.
\<close>

theorem toggle_twice_restores:
  assumes "length (selectedResults s) \<le> MAX_SELECTIONS"
  shows "set (selectedResults (handleResultSelect i (handleResultSelect i s))) =
      set (selectedResults s) \<and>
    (set (selectedResults (handleResultSelect i (handleResultSelect i s))) =
       set (selectedResults (handleResultSelect i s)) \<longleftrightarrow>
     i \<notin> set (selectedResults s) \<and> MAX_SELECTIONS \<le> length (selectedResults s))"
proof -
  have restore: "set (selectedResults (handleResultSelect i (handleResultSelect i s))) =
      set (selectedResults s)"
    using assms by (rule double_toggle)
  have "set (selectedResults s) = set (selectedResults (handleResultSelect i s)) \<longleftrightarrow>
     i \<notin> set (selectedResults s) \<and> MAX_SELECTIONS \<le> length (selectedResults s)"
  proof (cases "i \<in> set (selectedResults s)")
    case True
    then have "selectedResults (handleResultSelect i s) =
        filter (\<lambda>j. j \<noteq> i) (selectedResults s)"
      by (simp add: handleResultSelect_def)
    then have "i \<notin> set (selectedResults (handleResultSelect i s))" by simp
    with True show ?thesis by auto
  next
    case False
    show ?thesis
    proof (cases "MAX_SELECTIONS \<le> length (selectedResults s)")
      case True
      with False show ?thesis by (simp add: handleResultSelect_full)
    next
      case nf: False
      then have "selectedResults (handleResultSelect i s) = selectedResults s @ [i]"
        using False by (simp add: handleResultSelect_def Let_def)
      with False nf show ?thesis by auto
    qed
  qed
  with restore show ?thesis by simp
qed

theorem toggle_twice_restores_witness:
  "length (selectedResults (initialState ''m'' :: string State)) \<le> MAX_SELECTIONS \<and>
   set (selectedResults
     (handleResultSelect ''a'' (handleResultSelect ''a'' (initialState ''m'' :: string State)))) =
   set (selectedResults (initialState ''m'' :: string State))"
proof -
  have 0: "length (selectedResults (initialState ''m'' :: string State)) \<le> MAX_SELECTIONS"
    by (simp add: initialState_def)
  from toggle_twice_restores [OF 0, of "''a''"] 0 show ?thesis by blast
qed

section \<open>The diversity heuristic\<close>

lemma passesFloor_iff: "passesFloor r \<longleftrightarrow> (\<exists>x. score r = Some x \<and> x > 0.5)"
  by (cases "score r") (auto simp: passesFloor_def)

lemma select_loop_full:
  "cap \<le> length us \<Longrightarrow> select_loop cap hostname (r # rs) us = select_loop cap hostname rs us"
  by simp

lemma select_loop_invalid:
  "\<not> cap \<le> length us \<Longrightarrow> hostname (url r) = Inl e \<Longrightarrow>
   select_loop cap hostname (r # rs) us = Inl e"
  by simp

lemma select_loop_invalid2:
  "\<not> cap \<le> length us \<Longrightarrow> hostname (url r) = Inr d \<Longrightarrow> hasSimilar hostname d us = Inl e \<Longrightarrow>
   select_loop cap hostname (r # rs) us = Inl e"
  by simp

lemma select_loop_accept:
  "\<not> cap \<le> length us \<Longrightarrow> hostname (url r) = Inr d \<Longrightarrow> hasSimilar hostname d us = Inr False \<Longrightarrow>
   passesFloor r \<Longrightarrow>
   select_loop cap hostname (r # rs) us =
     (case select_loop cap hostname rs (set_add (url r) us) of
        Inl e \<Rightarrow> Inl e | Inr kept \<Rightarrow> Inr (r # kept))"
  by simp

lemma select_loop_reject:
  "\<not> cap \<le> length us \<Longrightarrow> hostname (url r) = Inr d \<Longrightarrow> hasSimilar hostname d us = Inr b \<Longrightarrow>
   b \<or> \<not> passesFloor r \<Longrightarrow>
   select_loop cap hostname (r # rs) us = select_loop cap hostname rs us"
  by auto

declare select_loop.simps(2) [simp del]

lemma hasSimilar_False:
  "hasSimilar hostname domain us = Inr False \<Longrightarrow> Inr domain \<notin> hostname ` set us"
  by (induction us) (auto split: sum.splits if_splits)

lemma hasSimilar_total:
  "\<forall>u\<in>set us. \<exists>h. hostname u = Inr h \<Longrightarrow> \<exists>b. hasSimilar hostname domain us = Inr b"
  by (induction us) (auto split: sum.splits if_splits)

lemma select_loop_sound:
  "select_loop cap hostname rs us = Inr sel \<Longrightarrow>
   (\<forall>r\<in>set sel. \<exists>h. hostname (url r) = Inr h) \<and>
   distinct (map (\<lambda>c. hostname (url c)) sel) \<and>
   (\<lambda>c. hostname (url c)) ` set sel \<inter> hostname ` set us = {} \<and>
   (\<forall>r\<in>set sel. passesFloor r) \<and>
   length us + length sel \<le> max cap (length us)"
proof (induction rs arbitrary: us sel)
  case Nil
  then show ?case by simp
next
  case (Cons r rs)
  show ?case
  proof (cases "cap \<le> length us")
    case True
    with Cons.prems have "select_loop cap hostname rs us = Inr sel"
      by (simp add: select_loop_full)
    from Cons.IH [OF this] show ?thesis .
  next
    case False
    obtain domain where dom: "hostname (url r) = Inr domain"
      using Cons.prems False select_loop_invalid [of cap us hostname r _ rs]
      by (cases "hostname (url r)") auto
    obtain similar where sim: "hasSimilar hostname domain us = Inr similar"
      using Cons.prems False dom select_loop_invalid2 [of cap us hostname r domain _ rs]
      by (cases "hasSimilar hostname domain us") auto
    show ?thesis
    proof (cases "\<not> similar \<and> passesFloor r")
      case accept: True
      then have sim': "hasSimilar hostname domain us = Inr False" using sim by simp
      have eq: "(case select_loop cap hostname rs (set_add (url r) us) of
          Inl e \<Rightarrow> Inl e | Inr kept \<Rightarrow> Inr (r # kept)) = Inr sel"
        using select_loop_accept [OF False dom sim', of rs] accept Cons.prems by simp
      then obtain kept where
        kept: "select_loop cap hostname rs (set_add (url r) us) = Inr kept" and sel: "sel = r # kept"
        by (cases "select_loop cap hostname rs (set_add (url r) us)") auto
      note IH = Cons.IH [OF kept]
      have nsim: "Inr domain \<notin> hostname ` set us"
        using hasSimilar_False [OF sim'] .
      with dom have notin: "url r \<notin> set us" by force
      then have add: "set_add (url r) us = us @ [url r]" by (simp add: set_add_def)
      have a: "\<forall>r\<in>set sel. \<exists>h. hostname (url r) = Inr h"
        using IH sel dom by simp
      have "hostname (url r) \<notin> (\<lambda>c. hostname (url c)) ` set kept"
        using IH add by auto
      then have b: "distinct (map (\<lambda>c. hostname (url c)) sel)"
        using IH sel by simp
      have c: "(\<lambda>c. hostname (url c)) ` set sel \<inter> hostname ` set us = {}"
        using IH add sel dom nsim by auto
      have d: "\<forall>r\<in>set sel. passesFloor r"
        using IH sel accept by simp
      have e: "length us + length sel \<le> max cap (length us)"
        using IH add sel False by simp
      show ?thesis using a b c d e by blast
    next
      case reject: False
      then have "similar \<or> \<not> passesFloor r" by blast
      from select_loop_reject [OF False dom sim this, of rs] Cons.prems
      have "select_loop cap hostname rs us = Inr sel" by simp
      from Cons.IH [OF this] show ?thesis .
    qed
  qed
qed

lemma select_loop_total:
  "\<forall>r\<in>set rs. \<exists>h. hostname (url r) = Inr h \<Longrightarrow> \<forall>u\<in>set us. \<exists>h. hostname u = Inr h \<Longrightarrow>
   \<exists>sel. select_loop cap hostname rs us = Inr sel"
proof (induction rs arbitrary: us)
  case Nil
  then show ?case by simp
next
  case (Cons r rs)
  from Cons.prems obtain domain where dom: "hostname (url r) = Inr domain" by auto
  from hasSimilar_total [OF Cons.prems(2)] obtain b where b: "hasSimilar hostname domain us = Inr b"
    by blast
  have 1: "\<exists>sel. select_loop cap hostname rs us = Inr sel"
    using Cons.IH [of us] Cons.prems by simp
  have "\<forall>u\<in>set (set_add (url r) us). \<exists>h. hostname u = Inr h"
    using Cons.prems dom by (auto simp: set_add_def)
  then have 2: "\<exists>sel. select_loop cap hostname rs (set_add (url r) us) = Inr sel"
    using Cons.IH [of "set_add (url r) us"] Cons.prems by simp
  show ?case
  proof (cases "cap \<le> length us")
    case True
    then show ?thesis using 1 by (simp add: select_loop_full)
  next
    case False
    show ?thesis
    proof (cases "\<not> b \<and> passesFloor r")
      case True
      then have "hasSimilar hostname domain us = Inr False" using b by simp
      from select_loop_accept [OF False dom this, of rs] True 2 show ?thesis by auto
    next
      case False2: False
      then have "b \<or> \<not> passesFloor r" by blast
      from select_loop_reject [OF False dom b this, of rs] 1 show ?thesis by simp
    qed
  qed
qed

lemma scenarioB_ranked:
  "rankedResults scenarioB_results scenarioB_rankings =
     [example_result ''https://a.example/1'' ''one'' \<lparr>score := Some 0.9\<rparr>,
      example_result ''https://d.example/'' ''five'' \<lparr>score := Some 0.9\<rparr>,
      example_result ''https://a.example/2'' ''two'' \<lparr>score := Some 0.8\<rparr>,
      example_result ''https://b.example/'' ''three'' \<lparr>score := Some 0.6\<rparr>,
      example_result ''https://c.example/'' ''four'' \<lparr>score := Some 0.4\<rparr>]"
  by (simp add: rankedResults_def scenarioB_results_def scenarioB_rankings_def example_result_def)

lemma scenarioB_selected:
  "selectDiverse 3 example_hostname (rankedResults scenarioB_results scenarioB_rankings) =
     Inr [example_result ''https://a.example/1'' ''one'' \<lparr>score := Some 0.9\<rparr>,
      example_result ''https://d.example/'' ''five'' \<lparr>score := Some 0.9\<rparr>,
      example_result ''https://b.example/'' ''three'' \<lparr>score := Some 0.6\<rparr>]"
  unfolding scenarioB_ranked
  by (simp add: selectDiverse_def select_loop.simps(2) example_result_def example_hostname_def
      set_add_def passesFloor_def)

section \<open>Claims about the diversity heuristic\<close>

text \<open>
  Claim C1.  Five candidates \<open>r1 \<dots> r5\<close> on the hosts \<open>a, a, b, c, d\<close>, scored 0.9, 0.8,
  0.6, 0.4 and 0.9 by the analyzer, with \<^verbatim>\<open>maxSelectableResults\<close> = 3: the pipeline
  sorts them into the order \<open>r1, r5, r2, r3, r4\<close>, and the heuristic selects exactly
  \<open>r1\<close> (0.9, host \<open>a\<close>), \<open>r5\<close> (0.9, host \<open>d\<close>) and \<open>r3\<close> (0.6, host \<open>b\<close>);
  \<open>r2\<close> (0.8, host \<open>a\<close>) and \<open>r4\<close> (0.4, host \<open>c\<close>) are left out.
\<close>

theorem scenarioB_selection:
  assumes h1: "hostname (url r1) = Inr a" and h2: "hostname (url r2) = Inr a"
    and h3: "hostname (url r3) = Inr b" and h4: "hostname (url r4) = Inr c"
    and h5: "hostname (url r5) = Inr d"
    and hosts: "distinct [a, b, c, d]" and u12: "url r1 \<noteq> url r2"
    and rankings: "rankings =
      [\<lparr>rank_url = url r1, rank_score = 0.9\<rparr>, \<lparr>rank_url = url r2, rank_score = 0.8\<rparr>,
       \<lparr>rank_url = url r3, rank_score = 0.6\<rparr>, \<lparr>rank_url = url r4, rank_score = 0.4\<rparr>,
       \<lparr>rank_url = url r5, rank_score = 0.9\<rparr>]"
  shows "maxSelectableResults = 3 \<and>
    rankedResults [r1, r2, r3, r4, r5] rankings =
      [r1\<lparr>score := Some 0.9\<rparr>, r5\<lparr>score := Some 0.9\<rparr>, r2\<lparr>score := Some 0.8\<rparr>,
       r3\<lparr>score := Some 0.6\<rparr>, r4\<lparr>score := Some 0.4\<rparr>] \<and>
    selectDiverse maxSelectableResults hostname (rankedResults [r1, r2, r3, r4, r5] rankings) =
      Inr [r1\<lparr>score := Some 0.9\<rparr>, r5\<lparr>score := Some 0.9\<rparr>, r3\<lparr>score := Some 0.6\<rparr>] \<and>
    r2\<lparr>score := Some 0.8\<rparr> \<notin>
      set [r1\<lparr>score := Some 0.9\<rparr>, r5\<lparr>score := Some 0.9\<rparr>, r3\<lparr>score := Some 0.6\<rparr>] \<and>
    r4\<lparr>score := Some 0.4\<rparr> \<notin>
      set [r1\<lparr>score := Some 0.9\<rparr>, r5\<lparr>score := Some 0.9\<rparr>, r3\<lparr>score := Some 0.6\<rparr>]"
proof -
  have ne: "url r1 \<noteq> url r3" "url r1 \<noteq> url r4" "url r1 \<noteq> url r5"
    "url r2 \<noteq> url r3" "url r2 \<noteq> url r4" "url r2 \<noteq> url r5"
    "url r3 \<noteq> url r4" "url r3 \<noteq> url r5" "url r4 \<noteq> url r5"
    using h1 h2 h3 h4 h5 hosts by auto
  have ranked: "rankedResults [r1, r2, r3, r4, r5] rankings =
      [r1\<lparr>score := Some 0.9\<rparr>, r5\<lparr>score := Some 0.9\<rparr>, r2\<lparr>score := Some 0.8\<rparr>,
       r3\<lparr>score := Some 0.6\<rparr>, r4\<lparr>score := Some 0.4\<rparr>]"
    using ne u12 by (simp add: rankedResults_def rankings)
  have sel: "select_loop 3 hostname
      [r1\<lparr>score := Some 0.9\<rparr>, r5\<lparr>score := Some 0.9\<rparr>, r2\<lparr>score := Some 0.8\<rparr>,
       r3\<lparr>score := Some 0.6\<rparr>, r4\<lparr>score := Some 0.4\<rparr>] [] =
      Inr [r1\<lparr>score := Some 0.9\<rparr>, r5\<lparr>score := Some 0.9\<rparr>, r3\<lparr>score := Some 0.6\<rparr>]"
    using h1 h2 h3 h4 h5 hosts ne u12
    by (auto simp add: select_loop.simps(2) set_add_def passesFloor_def)
  have out: "r2\<lparr>score := Some 0.8\<rparr> \<notin>
      set [r1\<lparr>score := Some 0.9\<rparr>, r5\<lparr>score := Some 0.9\<rparr>, r3\<lparr>score := Some 0.6\<rparr>]"
    "r4\<lparr>score := Some 0.4\<rparr> \<notin>
      set [r1\<lparr>score := Some 0.9\<rparr>, r5\<lparr>score := Some 0.9\<rparr>, r3\<lparr>score := Some 0.6\<rparr>]"
    by (auto dest: arg_cong [where f = score])
  show ?thesis
    using ranked sel out by (simp add: selectDiverse_def maxSelectableResults_def)
qed

theorem scenarioB_selection_witness:
  "selectDiverse maxSelectableResults example_hostname
     (rankedResults scenarioB_results scenarioB_rankings) =
   Inr [example_result ''https://a.example/1'' ''one'' \<lparr>score := Some 0.9\<rparr>,
        example_result ''https://d.example/'' ''five'' \<lparr>score := Some 0.9\<rparr>,
        example_result ''https://b.example/'' ''three'' \<lparr>score := Some 0.6\<rparr>]"
proof -
  have h1: "example_hostname (url (example_result ''https://a.example/1'' ''one'')) =
      Inr ''a.example''"
    and h2: "example_hostname (url (example_result ''https://a.example/2'' ''two'')) =
      Inr ''a.example''"
    and h3: "example_hostname (url (example_result ''https://b.example/'' ''three'')) =
      Inr ''b.example''"
    and h4: "example_hostname (url (example_result ''https://c.example/'' ''four'')) =
      Inr ''c.example''"
    and h5: "example_hostname (url (example_result ''https://d.example/'' ''five'')) =
      Inr ''d.example''"
    by (simp_all add: example_result_def example_hostname_def)
  have hosts: "distinct [''a.example'', ''b.example'', ''c.example'', ''d.example'']"
    by simp
  have u12: "url (example_result ''https://a.example/1'' ''one'') \<noteq>
      url (example_result ''https://a.example/2'' ''two'')"
    by (simp add: example_result_def)
  have rk: "scenarioB_rankings =
      [\<lparr>rank_url = url (example_result ''https://a.example/1'' ''one''), rank_score = 0.9\<rparr>,
       \<lparr>rank_url = url (example_result ''https://a.example/2'' ''two''), rank_score = 0.8\<rparr>,
       \<lparr>rank_url = url (example_result ''https://b.example/'' ''three''), rank_score = 0.6\<rparr>,
       \<lparr>rank_url = url (example_result ''https://c.example/'' ''four''), rank_score = 0.4\<rparr>,
       \<lparr>rank_url = url (example_result ''https://d.example/'' ''five''), rank_score = 0.9\<rparr>]"
    by (simp add: scenarioB_rankings_def example_result_def)
  from scenarioB_selection [OF h1 h2 h3 h4 h5 hosts u12 rk]
  show ?thesis unfolding scenarioB_results_def by blast
qed

text \<open>
  Claim C2.  Whatever the list of candidates and the cap, a selection that the heuristic
  returns has pairwise different hosts, only scores above 0.5, and at most \<open>cap\<close>
  members.  It does return one whenever every candidate's URL parses.
\<close>

theorem selectDiverse_sound:
  "(selectDiverse cap hostname ranked = Inr selected \<longrightarrow>
      (\<forall>r\<in>set selected. \<exists>h. hostname (url r) = Inr h) \<and>
      distinct (map (\<lambda>c. hostname (url c)) selected) \<and>
      (\<forall>r\<in>set selected. \<exists>x. score r = Some x \<and> x > 0.5) \<and>
      length selected \<le> cap) \<and>
   ((\<forall>r\<in>set ranked. \<exists>h. hostname (url r) = Inr h) \<longrightarrow>
      (\<exists>selected. selectDiverse cap hostname ranked = Inr selected))"
proof -
  have "selectDiverse cap hostname ranked = Inr selected \<Longrightarrow>
      (\<forall>r\<in>set selected. \<exists>h. hostname (url r) = Inr h) \<and>
      distinct (map (\<lambda>c. hostname (url c)) selected) \<and>
      (\<forall>r\<in>set selected. \<exists>x. score r = Some x \<and> x > 0.5) \<and>
      length selected \<le> cap"
    unfolding selectDiverse_def
    using select_loop_sound [of cap hostname ranked "[]" selected]
    by (simp add: passesFloor_iff)
  moreover have "(\<forall>r\<in>set ranked. \<exists>h. hostname (url r) = Inr h) \<Longrightarrow>
      (\<exists>selected. selectDiverse cap hostname ranked = Inr selected)"
    unfolding selectDiverse_def
    using select_loop_total [of ranked hostname "[]" cap] by simp
  ultimately show ?thesis by blast
qed

theorem selectDiverse_sound_witness:
  "selectDiverse 3 example_hostname (rankedResults scenarioB_results scenarioB_rankings) =
     Inr [example_result ''https://a.example/1'' ''one'' \<lparr>score := Some 0.9\<rparr>,
      example_result ''https://d.example/'' ''five'' \<lparr>score := Some 0.9\<rparr>,
      example_result ''https://b.example/'' ''three'' \<lparr>score := Some 0.6\<rparr>] \<and>
   map (\<lambda>c. example_hostname (url c)) (rankedResults scenarioB_results scenarioB_rankings) =
     [Inr ''a.example'', Inr ''d.example'', Inr ''a.example'', Inr ''b.example'',
      Inr ''c.example''] \<and>
   distinct (map (\<lambda>c. example_hostname (url c))
     [example_result ''https://a.example/1'' ''one'' \<lparr>score := Some 0.9\<rparr>,
      example_result ''https://d.example/'' ''five'' \<lparr>score := Some 0.9\<rparr>,
      example_result ''https://b.example/'' ''three'' \<lparr>score := Some 0.6\<rparr>]) \<and>
   length [example_result ''https://a.example/1'' ''one'' \<lparr>score := Some 0.9\<rparr>,
      example_result ''https://d.example/'' ''five'' \<lparr>score := Some 0.9\<rparr>,
      example_result ''https://b.example/'' ''three'' \<lparr>score := Some 0.6\<rparr>] \<le> (3::nat)"
proof -
  have valid: "\<forall>r\<in>set (rankedResults scenarioB_results scenarioB_rankings).
      \<exists>h. example_hostname (url r) = Inr h"
    unfolding scenarioB_ranked by (simp add: example_result_def example_hostname_def)
  have hosts: "map (\<lambda>c. example_hostname (url c))
      (rankedResults scenarioB_results scenarioB_rankings) =
     [Inr ''a.example'', Inr ''d.example'', Inr ''a.example'', Inr ''b.example'',
      Inr ''c.example'']"
    unfolding scenarioB_ranked by (simp add: example_result_def example_hostname_def)
  show ?thesis
    using hosts selectDiverse_sound [of 3 example_hostname
        "rankedResults scenarioB_results scenarioB_rankings"
        "[example_result ''https://a.example/1'' ''one'' \<lparr>score := Some 0.9\<rparr>,
          example_result ''https://d.example/'' ''five'' \<lparr>score := Some 0.9\<rparr>,
          example_result ''https://b.example/'' ''three'' \<lparr>score := Some 0.6\<rparr>]"]
      scenarioB_selected valid
    by simp
qed

section \<open>Resolving the content of a source\<close>

lemma fetchContent_rethrows:
  "api_fetch_content remote u w = (Inl e, w') \<Longrightarrow> fetchContent remote u w = (Inl e, w')"
  by (simp add: fetchContent_def)

lemma resolveContent_no_content:
  "\<not> truthy (content article) \<Longrightarrow>
   resolveContent remote article st w = resolveByFetch remote article st w"
  by (cases "content article") (auto simp: resolveContent_def)

lemma resolveByFetch_throw:
  "fetchContent remote (url article) w = (Inl e, w') \<Longrightarrow>
   resolveByFetch remote article st w =
     (if isRateLimitError e then
        \<lparr>res_outcome = Inl e, res_state = st, res_fetches = [url article], res_world = w'\<rparr>
      else usePreview article st w')"
  by (simp add: resolveByFetch_def)

lemma resolveByFetch_content:
  "fetchContent remote (url article) w = (Inr d, w') \<Longrightarrow> cb_content d = Some c \<Longrightarrow> c \<noteq> [] \<Longrightarrow>
   resolveByFetch remote article st w =
     \<lparr>res_outcome = Inr \<lparr>cr_url = url article, cr_title = name article, cr_content = c\<rparr>,
      res_state = markFetched (url article) st, res_fetches = [url article], res_world = w'\<rparr>"
  by (simp add: resolveByFetch_def)

lemma resolveByFetch_empty:
  "fetchContent remote (url article) w = (Inr d, w') \<Longrightarrow> \<not> truthy (cb_content d) \<Longrightarrow>
   resolveByFetch remote article st w = usePreview article st w'"
  by (cases "cb_content d") (auto simp: resolveByFetch_def)

lemma usePreview_outcome:
  "res_outcome (usePreview article st w) =
     Inr \<lparr>cr_url = url article, cr_title = name article, cr_content = snippet article\<rparr>"
  by (simp add: usePreview_def)



lemma resolveByFetch_throws_rate:
  assumes "res_outcome (resolveByFetch remote article st w) = Inl e"
  shows "isRateLimitError e"
proof -
  obtain res w' where f: "fetchContent remote (url article) w = (res, w')"
    by (cases "fetchContent remote (url article) w")
  show ?thesis
  proof (cases res)
    case (Inl e')
    with f assms show ?thesis
      by (cases "isRateLimitError e'") (simp_all add: resolveByFetch_throw usePreview_outcome)
  next
    case (Inr d)
    show ?thesis
    proof (cases "truthy (cb_content d)")
      case True
      then obtain c where "cb_content d = Some c" "c \<noteq> []"
        by (cases "cb_content d") auto
      with f Inr assms show ?thesis by (simp add: resolveByFetch_content)
    next
      case False
      with f Inr assms show ?thesis by (simp add: resolveByFetch_empty usePreview_outcome)
    qed
  qed
qed

lemma resolveContent_throws_rate:
  assumes "res_outcome (resolveContent remote article st w) = Inl e"
  shows "isRateLimitError e"
proof (cases "truthy (content article)")
  case True
  then obtain c where "content article = Some c" "c \<noteq> []"
    by (cases "content article") auto
  with assms show ?thesis by (simp add: resolveContent_def)
next
  case False
  with assms show ?thesis
    by (simp add: resolveContent_no_content resolveByFetch_throws_rate)
qed



lemma fetchContent_example_c:
  "fetchContent example_remote ''https://c.example/'' v =
     (Inl (JsError ''Failed to fetch content: 429''), Suc v)"
  by (simp add: fetchContent_def example_remote_def resp_ok_def show_nat.simps)

lemma fetchContent_example_d:
  "fetchContent example_remote ''https://d.example/'' v = (Inl (JsError ''upstream down''), Suc v)"
  by (simp add: fetchContent_def example_remote_def resp_ok_def)

lemma fetchContent_example_ok:
  "u \<noteq> ''https://d.example/'' \<Longrightarrow> u \<noteq> ''https://c.example/'' \<Longrightarrow>
   fetchContent example_remote u v = (Inr \<lparr>cb_content = Some (''text of '' @ u), cb_error = None\<rparr>, Suc v)"
  by (simp add: fetchContent_def example_remote_def resp_ok_def)

section \<open>Resolving a batch of sources\<close>

lemma resolveAll_abort:
  assumes "res_outcome (resolveContent remote a (all_state (resolveAll remote pre st w))
      (all_world (resolveAll remote pre st w))) = Inl e"
  shows "\<exists>e'. all_outcome (resolveAll remote (pre @ a # post) st w) = Inl e'"
  using assms
proof (induction pre arbitrary: st w)
  case Nil
  then show ?case by (simp add: Let_def)
next
  case (Cons b pre)
  let ?first = "resolveContent remote b st w"
  from Cons.prems have "res_outcome (resolveContent remote a
      (all_state (resolveAll remote pre (res_state ?first) (res_world ?first)))
      (all_world (resolveAll remote pre (res_state ?first) (res_world ?first)))) = Inl e"
    by (simp add: Let_def)
  from Cons.IH [OF this] obtain e' where
    "all_outcome (resolveAll remote (pre @ a # post) (res_state ?first) (res_world ?first)) = Inl e'"
    by blast
  then show ?case
    by (cases "res_outcome ?first") (simp_all add: Let_def)
qed

lemma resolveAll_throws_rate:
  "all_outcome (resolveAll remote articles st w) = Inl e \<Longrightarrow> isRateLimitError e"
proof (induction articles arbitrary: st w)
  case Nil
  then show ?case by simp
next
  case (Cons a articles)
  let ?first = "resolveContent remote a st w"
  let ?others = "resolveAll remote articles (res_state ?first) (res_world ?first)"
  from Cons.prems have p: "promiseAll (res_outcome ?first) (all_outcome ?others) = Inl e"
    by (simp add: Let_def)
  show ?case
  proof (cases "res_outcome ?first")
    case (Inl e')
    with p have "e' = e" by simp
    with Inl show ?thesis using resolveContent_throws_rate [of remote a st w e] by simp
  next
    case (Inr r)
    with p have "all_outcome ?others = Inl e"
      by (cases "all_outcome ?others") simp_all
    then show ?thesis by (rule Cons.IH)
  qed
qed


declare resolveAll.simps [simp del]

lemma resolveAll_append:
  "resolveAll remote (pre @ rest) st w =
     (let first = resolveAll remote pre st w;
          others = resolveAll remote rest (all_state first) (all_world first)
      in \<lparr>all_outcome =
            (case all_outcome first of
               Inl e \<Rightarrow> Inl e
             | Inr rs \<Rightarrow> (case all_outcome others of Inl e \<Rightarrow> Inl e | Inr ss \<Rightarrow> Inr (rs @ ss))),
          all_state = all_state others,
          all_fetches = all_fetches first @ all_fetches others,
          all_world = all_world others\<rparr>)"
proof (induction pre arbitrary: st w)
  case Nil
  then show ?case
    by (cases "all_outcome (resolveAll remote rest st w)") (simp_all add: resolveAll.simps Let_def)
next
  case (Cons a pre)
  let ?f = "resolveContent remote a st w"
  show ?case
    unfolding append_Cons resolveAll.simps(2) [of remote a] Let_def Cons.IH [unfolded Let_def]
    by (cases "res_outcome ?f";
        cases "all_outcome (resolveAll remote pre (res_state ?f) (res_world ?f))";
        cases "all_outcome (resolveAll remote rest
          (all_state (resolveAll remote pre (res_state ?f) (res_world ?f)))
          (all_world (resolveAll remote pre (res_state ?f) (res_world ?f))))";
        simp)
qed

lemma resolveAll_abort_at:
  assumes "res_outcome (resolveContent remote a (all_state (resolveAll remote pre st w))
      (all_world (resolveAll remote pre st w))) = Inl e"
  shows "all_outcome (resolveAll remote (pre @ a # post) st w) =
    (case all_outcome (resolveAll remote pre st w) of Inl e0 \<Rightarrow> Inl e0 | Inr rs \<Rightarrow> Inl e)"
  using assms
  by (cases "all_outcome (resolveAll remote pre st w)")
     (simp_all add: resolveAll_append [of remote pre "a # post"] resolveAll.simps(2) Let_def)

lemma example_batch_first:
  "all_outcome (resolveAll example_remote [example_result ''https://a.example/1'' ''one'']
      (example_state ''q'') 0) =
     Inr [\<lparr>cr_url = ''https://a.example/1'', cr_title = ''Page https://a.example/1'',
       cr_content = ''text of https://a.example/1''\<rparr>]"
  "all_world (resolveAll example_remote [example_result ''https://a.example/1'' ''one'']
      (example_state ''q'') 0) = 1"
  by (simp_all add: resolveAll.simps Let_def resolveContent_def resolveByFetch_def
      example_result_def fetchContent_example_ok)

section \<open>Claims about the resolution of content\<close>

text \<open>
  Claim C6.  A candidate whose content is there already (a string that is not empty) is
  resolved without a call of \<^verbatim>\<open>fetchContent\<close>: the list of fetches is empty and the
  world is as before; the result has the candidate's URL, its name as the title and that
  content unchanged; the URL is recorded as fetched and the count of successful sources
  is one higher, the other counts as before.
\<close>

theorem resolveContent_prepopulated:
  assumes "content article = Some c" and "c \<noteq> []"
  shows "resolveContent remote article st w =
      \<lparr>res_outcome = Inr \<lparr>cr_url = url article, cr_title = name article, cr_content = c\<rparr>,
       res_state = markFetched (url article) st, res_fetches = [], res_world = w\<rparr> \<and>
    fs_successful (fetchStatus (status (markFetched (url article) st))) =
      fs_successful (fetchStatus (status st)) + 1 \<and>
    fs_sourceStatuses (fetchStatus (status (markFetched (url article) st))) (url article) =
      Some Fetched \<and>
    fs_fallback (fetchStatus (status (markFetched (url article) st))) =
      fs_fallback (fetchStatus (status st)) \<and>
    fs_total (fetchStatus (status (markFetched (url article) st))) =
      fs_total (fetchStatus (status st))"
  using assms by (simp add: resolveContent_def markFetched_def updateStatus_def)

theorem resolveContent_prepopulated_witness:
  "content example_upload = Some ''all the notes'' \<and>
   res_outcome (resolveContent example_remote example_upload (example_state ''q'') 0) =
     Inr \<lparr>cr_url = ''notes.txt'', cr_title = ''notes.txt'', cr_content = ''all the notes''\<rparr> \<and>
   res_fetches (resolveContent example_remote example_upload (example_state ''q'') 0) = [] \<and>
   res_world (resolveContent example_remote example_upload (example_state ''q'') 0) = 0 \<and>
   fs_successful (fetchStatus (status
     (res_state (resolveContent example_remote example_upload (example_state ''q'') 0)))) = 1"
proof -
  have c: "content example_upload = Some ''all the notes''" and n: "''all the notes'' \<noteq> []"
    by (simp_all add: example_upload_def)
  from resolveContent_prepopulated [OF c n, of example_remote "example_state ''q''" 0] c
  show ?thesis
    by (simp add: example_upload_def example_state_def initialState_def)
qed

text \<open>
  Claim C10.  A thrown value is the rate-limit signal exactly when it is an \<^verbatim>\<open>Error\<close>
  whose message contains \<^verbatim>\<open>429\<close>.  When the operation throws it, \<^verbatim>\<open>retryWithBackoff\<close>
  sleeps \<open>baseDelay * 2 ^ i\<close> and goes on to the next attempt (with more than one
  attempt allowed, the operation is invoked again); it throws any other value at once,
  after that single invocation.  When \<^verbatim>\<open>fetchContent\<close> throws it for a source without
  content, the resolution of that source throws it again, and the whole batch is rejected
  wherever the source stands in it: the batch \<open>pre @ article # post\<close> throws what the
  sources before it threw, or else this very error, and what it throws is a rate-limit
  signal.  Any other value is absorbed and the snippet taken as the content, recorded as a
  preview.  Nothing but the rate-limit signal is thrown by the resolution of a source or
  of a batch.
\<close>

theorem rate_limit_classification:
  "(isRateLimitError e \<longleftrightarrow> (\<exists>m p q. e = JsError m \<and> m = p @ ''429'' @ q)) \<and>
   (i < maxRetries \<and> operation w = (Inl e, w') \<longrightarrow>
      retry_loop operation maxRetries baseDelay i lastError n ds w =
        (if isRateLimitError e
         then retry_loop operation maxRetries baseDelay (Suc i) e (Suc n)
                (ds @ [baseDelay * 2 ^ i]) w'
         else \<lparr>outcome = Inl e, invocations = Suc n, delays = ds, world = w'\<rparr>)) \<and>
   (0 < maxRetries \<and> operation w = (Inl e, w') \<and> \<not> isRateLimitError e \<longrightarrow>
      retryWithBackoff operation maxRetries baseDelay w =
        \<lparr>outcome = Inl e, invocations = 1, delays = [], world = w'\<rparr>) \<and>
   (1 < maxRetries \<and> operation w = (Inl e, w') \<and> isRateLimitError e \<longrightarrow>
      2 \<le> invocations (retryWithBackoff operation maxRetries baseDelay w) \<and>
      take 1 (delays (retryWithBackoff operation maxRetries baseDelay w)) = [baseDelay]) \<and>
   (\<not> truthy (content article) \<and> fetchContent remote (url article) v = (Inl e, v') \<longrightarrow>
      resolveContent remote article st v =
        (if isRateLimitError e then
           \<lparr>res_outcome = Inl e, res_state = st, res_fetches = [url article], res_world = v'\<rparr>
         else
           \<lparr>res_outcome = Inr \<lparr>cr_url = url article, cr_title = name article,
              cr_content = snippet article\<rparr>,
            res_state = markPreview (url article) st, res_fetches = [url article],
            res_world = v'\<rparr>)) \<and>
   (res_outcome (resolveContent remote article st v) = Inl e \<longrightarrow>
      isRateLimitError e \<and>
      (\<exists>e'. all_outcome (resolveAll remote (article # rest) st v) = Inl e')) \<and>
   (res_outcome (resolveContent remote article (all_state (resolveAll remote pre st v))
        (all_world (resolveAll remote pre st v))) = Inl e \<longrightarrow>
      isRateLimitError e \<and>
      all_outcome (resolveAll remote (pre @ article # post) st v) =
        (case all_outcome (resolveAll remote pre st v) of
           Inl e0 \<Rightarrow> Inl e0
         | Inr rs \<Rightarrow> Inl e) \<and>
      (\<exists>e'. all_outcome (resolveAll remote (pre @ article # post) st v) = Inl e' \<and>
         isRateLimitError e')) \<and>
   (\<not> truthy (content article) \<and>
    fetchContent remote (url article) (all_world (resolveAll remote pre st v)) = (Inl e, u) \<and>
    isRateLimitError e \<longrightarrow>
      all_outcome (resolveAll remote (pre @ article # post) st v) =
        (case all_outcome (resolveAll remote pre st v) of
           Inl e0 \<Rightarrow> Inl e0
         | Inr rs \<Rightarrow> Inl e) \<and>
      (\<exists>e'. all_outcome (resolveAll remote (pre @ article # post) st v) = Inl e' \<and>
         isRateLimitError e')) \<and>
   (all_outcome (resolveAll remote articles st v) = Inl e \<longrightarrow> isRateLimitError e)"
proof -
  let ?st = "all_state (resolveAll remote pre st v)"
  let ?v = "all_world (resolveAll remote pre st v)"
  let ?batch = "resolveAll remote (pre @ article # post) st v"
  have 1: "isRateLimitError e \<longleftrightarrow> (\<exists>m p q. e = JsError m \<and> m = p @ ''429'' @ q)"
    by (cases e) (simp_all add: includes_iff)
  have 2: "i < maxRetries \<and> operation w = (Inl e, w') \<longrightarrow>
      retry_loop operation maxRetries baseDelay i lastError n ds w =
        (if isRateLimitError e
         then retry_loop operation maxRetries baseDelay (Suc i) e (Suc n)
                (ds @ [baseDelay * 2 ^ i]) w'
         else \<lparr>outcome = Inl e, invocations = Suc n, delays = ds, world = w'\<rparr>)"
    by (simp add: retry_loop_step retry_loop_throw)
  have 3: "0 < maxRetries \<and> operation w = (Inl e, w') \<and> \<not> isRateLimitError e \<longrightarrow>
      retryWithBackoff operation maxRetries baseDelay w =
        \<lparr>outcome = Inl e, invocations = 1, delays = [], world = w'\<rparr>"
    by (simp add: retryWithBackoff_def retry_loop_throw)
  have 4: "1 < maxRetries \<and> operation w = (Inl e, w') \<and> isRateLimitError e \<longrightarrow>
      2 \<le> invocations (retryWithBackoff operation maxRetries baseDelay w) \<and>
      take 1 (delays (retryWithBackoff operation maxRetries baseDelay w)) = [baseDelay]"
    using retry_loop_again [of 0 maxRetries operation w e w' 0 baseDelay JsUndefined "[]"]
    by (auto simp: retryWithBackoff_def)
  have 5: "\<not> truthy (content article) \<and> fetchContent remote (url article) v = (Inl e, v') \<longrightarrow>
      resolveContent remote article st v =
        (if isRateLimitError e then
           \<lparr>res_outcome = Inl e, res_state = st, res_fetches = [url article], res_world = v'\<rparr>
         else
           \<lparr>res_outcome = Inr \<lparr>cr_url = url article, cr_title = name article,
              cr_content = snippet article\<rparr>,
            res_state = markPreview (url article) st, res_fetches = [url article],
            res_world = v'\<rparr>)"
    by (simp add: resolveContent_no_content resolveByFetch_throw usePreview_def)
  have 6: "res_outcome (resolveContent remote article st v) = Inl e \<longrightarrow>
      isRateLimitError e \<and>
      (\<exists>e'. all_outcome (resolveAll remote (article # rest) st v) = Inl e')"
    using resolveContent_throws_rate [of remote article st v e]
      resolveAll_abort [of remote article "[]" st v e rest]
    by (auto simp: resolveAll.simps)
  have at: "all_outcome ?batch =
        (case all_outcome (resolveAll remote pre st v) of Inl e0 \<Rightarrow> Inl e0 | Inr rs \<Rightarrow> Inl e) \<and>
      (\<exists>e'. all_outcome ?batch = Inl e' \<and> isRateLimitError e')"
    if thrown: "res_outcome (resolveContent remote article ?st ?v) = Inl e"
  proof -
    have eq: "all_outcome ?batch =
        (case all_outcome (resolveAll remote pre st v) of Inl e0 \<Rightarrow> Inl e0 | Inr rs \<Rightarrow> Inl e)"
      using thrown by (rule resolveAll_abort_at)
    then obtain e' where e': "all_outcome ?batch = Inl e'"
      by (cases "all_outcome (resolveAll remote pre st v)") simp_all
    then have "isRateLimitError e'" by (rule resolveAll_throws_rate)
    with eq e' show ?thesis by blast
  qed
  have 7: "res_outcome (resolveContent remote article ?st ?v) = Inl e \<longrightarrow>
      isRateLimitError e \<and>
      all_outcome ?batch =
        (case all_outcome (resolveAll remote pre st v) of Inl e0 \<Rightarrow> Inl e0 | Inr rs \<Rightarrow> Inl e) \<and>
      (\<exists>e'. all_outcome ?batch = Inl e' \<and> isRateLimitError e')"
    using at resolveContent_throws_rate [of remote article ?st ?v e] by blast
  have 8: "\<not> truthy (content article) \<and>
      fetchContent remote (url article) ?v = (Inl e, u) \<and> isRateLimitError e \<longrightarrow>
      all_outcome ?batch =
        (case all_outcome (resolveAll remote pre st v) of Inl e0 \<Rightarrow> Inl e0 | Inr rs \<Rightarrow> Inl e) \<and>
      (\<exists>e'. all_outcome ?batch = Inl e' \<and> isRateLimitError e')"
  proof
    assume h: "\<not> truthy (content article) \<and>
      fetchContent remote (url article) ?v = (Inl e, u) \<and> isRateLimitError e"
    then have "res_outcome (resolveContent remote article ?st ?v) = Inl e"
      by (simp add: resolveContent_no_content resolveByFetch_throw)
    then show "all_outcome ?batch =
        (case all_outcome (resolveAll remote pre st v) of Inl e0 \<Rightarrow> Inl e0 | Inr rs \<Rightarrow> Inl e) \<and>
      (\<exists>e'. all_outcome ?batch = Inl e' \<and> isRateLimitError e')"
      by (rule at)
  qed
  have 9: "all_outcome (resolveAll remote articles st v) = Inl e \<longrightarrow> isRateLimitError e"
    using resolveAll_throws_rate [of remote articles st v e] by simp
  from 1 2 3 4 5 6 7 8 9 show ?thesis by blast
qed

theorem rate_limit_classification_witness:
  "isRateLimitError (JsError ''Failed to fetch content: 429'') \<and>
   2 \<le> invocations (retryWithBackoff flaky 3 1000 0) \<and>
   take 1 (delays (retryWithBackoff flaky 3 1000 0)) = [1000] \<and>
   resolveContent example_remote (example_result ''https://c.example/'' ''four'')
       (example_state ''q'') 0 =
     \<lparr>res_outcome = Inl (JsError ''Failed to fetch content: 429''),
      res_state = example_state ''q'', res_fetches = [''https://c.example/''], res_world = 1\<rparr> \<and>
   all_outcome (resolveAll example_remote
       [example_result ''https://a.example/1'' ''one'',
        example_result ''https://c.example/'' ''four'',
        example_result ''https://b.example/'' ''three''] (example_state ''q'') 0) =
     Inl (JsError ''Failed to fetch content: 429'') \<and>
   \<not> isRateLimitError (JsError ''upstream down'') \<and>
   res_outcome (resolveContent example_remote (example_result ''https://d.example/'' ''five'')
       (example_state ''q'') 0) =
     Inr \<lparr>cr_url = ''https://d.example/'', cr_title = ''Page https://d.example/'',
       cr_content = ''five''\<rparr>"
proof -
  have r: "isRateLimitError (JsError ''Failed to fetch content: 429'')"
    and n: "\<not> isRateLimitError (JsError ''upstream down'')"
    by simp_all
  have op: "flaky 0 = (Inl (JsError ''Failed to fetch content: 429''), 1)"
    by (simp add: flaky_def)
  have c: "\<not> truthy (content (example_result ''https://c.example/'' ''four''))"
    and d: "\<not> truthy (content (example_result ''https://d.example/'' ''five''))"
    by (simp_all add: example_result_def)
  have fc: "fetchContent example_remote (url (example_result ''https://c.example/'' ''four'')) 0 =
      (Inl (JsError ''Failed to fetch content: 429''), 1)"
    by (simp add: example_result_def fetchContent_example_c)
  have fd: "fetchContent example_remote (url (example_result ''https://d.example/'' ''five'')) 0 =
      (Inl (JsError ''upstream down''), 1)"
    by (simp add: example_result_def fetchContent_example_d)
  have fc2: "fetchContent example_remote (url (example_result ''https://c.example/'' ''four''))
      (all_world (resolveAll example_remote [example_result ''https://a.example/1'' ''one'']
        (example_state ''q'') 0)) = (Inl (JsError ''Failed to fetch content: 429''), 2)"
    unfolding example_batch_first(2) by (simp add: example_result_def fetchContent_example_c)
  from rate_limit_classification [where e = "JsError ''Failed to fetch content: 429''"
      and operation = flaky and w = 0 and w' = 1 and maxRetries = 3 and baseDelay = 1000
      and i = 0 and n = 0 and ds = "[]" and lastError = JsUndefined and articles = "[]"
      and rest = "[]" and pre = "[]" and post = "[]" and u = 1
      and article = "example_result ''https://c.example/'' ''four''" and remote = example_remote
      and v = 0 and v' = 1 and st = "example_state ''q''"] r op c fc
  have A: "2 \<le> invocations (retryWithBackoff flaky 3 1000 0) \<and>
      take 1 (delays (retryWithBackoff flaky 3 1000 0)) = [1000] \<and>
      resolveContent example_remote (example_result ''https://c.example/'' ''four'')
        (example_state ''q'') 0 =
      \<lparr>res_outcome = Inl (JsError ''Failed to fetch content: 429''),
       res_state = example_state ''q'', res_fetches = [''https://c.example/''], res_world = 1\<rparr>"
    by (simp add: example_result_def)
  from rate_limit_classification [where e = "JsError ''upstream down''"
      and operation = flaky and w = 0 and w' = 1 and maxRetries = 3 and baseDelay = 1000
      and i = 0 and n = 0 and ds = "[]" and lastError = JsUndefined and articles = "[]"
      and rest = "[]" and pre = "[]" and post = "[]" and u = 1
      and article = "example_result ''https://d.example/'' ''five''" and remote = example_remote
      and v = 0 and v' = 1 and st = "example_state ''q''"] n d fd
  have B: "res_outcome (resolveContent example_remote (example_result ''https://d.example/'' ''five'')
       (example_state ''q'') 0) =
     Inr \<lparr>cr_url = ''https://d.example/'', cr_title = ''Page https://d.example/'',
       cr_content = ''five''\<rparr>"
    by (simp add: example_result_def)
  from rate_limit_classification [where e = "JsError ''Failed to fetch content: 429''"
      and operation = flaky and w = 0 and w' = 1 and maxRetries = 3 and baseDelay = 1000
      and i = 0 and n = 0 and ds = "[]" and lastError = JsUndefined and articles = "[]"
      and rest = "[]" and pre = "[example_result ''https://a.example/1'' ''one'']"
      and post = "[example_result ''https://b.example/'' ''three'']" and u = 2
      and article = "example_result ''https://c.example/'' ''four''" and remote = example_remote
      and v = 0 and v' = 1 and st = "example_state ''q''"] r c fc2
  have C: "all_outcome (resolveAll example_remote
       [example_result ''https://a.example/1'' ''one'',
        example_result ''https://c.example/'' ''four'',
        example_result ''https://b.example/'' ''three''] (example_state ''q'') 0) =
     Inl (JsError ''Failed to fetch content: 429'')"
    by (simp add: example_batch_first)
  from r n A B C show ?thesis by blast
qed

section \<open>The agent run\<close>

lemma example_state_fields:
  "reportPrompt (example_state prompt) = prompt" "selectedModel (example_state prompt) = ''m''"
  "timeFilter (example_state prompt) = AnyTime"
  by (simp_all add: example_state_def initialState_def)

lemma example_optimize:
  "retryWithBackoff (optimizeOperation example_remote prompt model) 3 1000 v =
     \<lparr>outcome = Inr \<lparr>ob_query = prompt, ob_optimizedPrompt = ''p'',
        ob_explanation = ''as asked'', ob_suggestedStructure = None\<rparr>,
      invocations = 1, delays = [], world = Suc v\<rparr>"
  by (simp add: retryWithBackoff_def retry_loop_return optimizeOperation_def example_remote_def
      resp_ok_def)

lemma example_search:
  "retryWithBackoff (searchOperation example_remote q tf) 3 1000 v =
     \<lparr>outcome = Inr \<lparr>sb_value = Some (if q = ''test'' then [] else scenarioB_results),
        sb_error = None\<rparr>,
      invocations = 1, delays = [], world = Suc v\<rparr>"
  by (simp add: retryWithBackoff_def retry_loop_return searchOperation_def example_remote_def
      resp_ok_def)


lemma agent_no_results_general:
  assumes "trim (reportPrompt state) \<noteq> []"
    and "outcome (retryWithBackoff
      (optimizeOperation remote (reportPrompt state) (selectedModel state)) 3 1000 w) = Inr body"
    and "w1 = world (retryWithBackoff
      (optimizeOperation remote (reportPrompt state) (selectedModel state)) 3 1000 w)"
    and "outcome (retryWithBackoff
      (searchOperation remote (ob_query body) (timeFilter state)) 3 1000 w1) = Inr found"
    and "sb_value found = None \<or> sb_value found = Some []"
  shows "error (fst (handleAgentSearch remote state w)) =
      Some ''No search results found. Please try a different query.'' \<and>
    report (fst (handleAgentSearch remote state w)) = None \<and>
    agentStep (status (fst (handleAgentSearch remote state w))) = StepSearching \<and>
    results (fst (handleAgentSearch remote state w)) = [] \<and>
    selectedResults (fst (handleAgentSearch remote state w)) = [] \<and>
    fst (snd (handleAgentSearch remote state w)) =
      [(''Agent Error'', ''No search results found. Please try a different query.'')]"
proof -
  let ?st0 = "(updateStatus (\<lambda>prev. prev\<lparr>agentStep := StepProcessing,
      agentInsights := [], searchQueries := []\<rparr>) state)
      \<lparr>error := None, results := [], selectedResults := [], report := None\<rparr>"
  obtain st1 where opt: "agentOptimize remote state ?st0 w = (Inr body, st1, w1)"
    and st1: "error st1 = None" "results st1 = []" "selectedResults st1 = []" "report st1 = None"
    using assms(2,3) by (simp add: agentOptimize_def Let_def updateStatus_def)
  have found: "(case sb_value found of Some v \<Rightarrow> v | None \<Rightarrow> []) = []"
    using assms(5) by auto
  have search: "agentSearch remote state body st1 w1 =
      (Inl (JsError ''No search results found. Please try a different query.''),
       updateStatus (\<lambda>prev. prev\<lparr>agentStep := StepSearching\<rparr>) st1,
       world (retryWithBackoff (searchOperation remote (ob_query body) (timeFilter state))
         3 1000 w1))"
    using assms(4) found by (simp add: agentSearch_def Let_def)
  have tried: "agentTry remote state ?st0 w =
      (Inl (JsError ''No search results found. Please try a different query.''),
       updateStatus (\<lambda>prev. prev\<lparr>agentStep := StepSearching\<rparr>) st1,
       world (retryWithBackoff (searchOperation remote (ob_query body) (timeFilter state))
         3 1000 w1))"
    unfolding agentTry_def opt by (simp add: search)
  show ?thesis
    using assms(1) st1 unfolding handleAgentSearch_def Let_def tried
    by (simp add: handleError_def updateStatus_def)
qed



section \<open>Claims about the agent run\<close>

text \<open>
  Claim C5, as stated, fails: on the example service the search for \<^verbatim>\<open>test\<close> returns no
  result, and the stage of the run afterwards is not the \<^verbatim>\<open>error\<close> stage.
\<close>

theorem agent_no_results_stage:
  "outcome (retryWithBackoff (searchOperation example_remote ''test'' AnyTime) 3 1000 1) =
     Inr \<lparr>sb_value = Some [], sb_error = None\<rparr> \<and>
   agentStep (status (fst (handleAgentSearch example_remote (example_state ''test'') 0))) \<noteq>
     StepError"
proof -
  have 1: "trim (reportPrompt (example_state ''test'')) \<noteq> []"
    by (simp add: example_state_fields trim_test)
  have 2: "outcome (retryWithBackoff (optimizeOperation example_remote
      (reportPrompt (example_state ''test'')) (selectedModel (example_state ''test''))) 3 1000 0) =
      Inr \<lparr>ob_query = ''test'', ob_optimizedPrompt = ''p'',
        ob_explanation = ''as asked'', ob_suggestedStructure = None\<rparr>"
    by (simp add: example_optimize example_state_fields)
  have 3: "1 = world (retryWithBackoff (optimizeOperation example_remote
      (reportPrompt (example_state ''test'')) (selectedModel (example_state ''test''))) 3 1000 0)"
    by (simp add: example_optimize)
  have 4: "outcome (retryWithBackoff (searchOperation example_remote
      (ob_query \<lparr>ob_query = ''test'', ob_optimizedPrompt = ''p'',
        ob_explanation = ''as asked'', ob_suggestedStructure = None\<rparr>)
      (timeFilter (example_state ''test''))) 3 1000 1) =
      Inr \<lparr>sb_value = Some [], sb_error = None\<rparr>"
    by (simp add: example_search)
  have 5: "sb_value \<lparr>sb_value = Some [], sb_error = None\<rparr> = None \<or>
      sb_value \<lparr>sb_value = Some [], sb_error = None\<rparr> = Some []"
    by simp
  from agent_no_results_general [OF 1 2 3 4 5] 4 show ?thesis
    by (simp add: example_state_fields)
qed

text \<open>
  Claim C5, amended.  When the optimizer has answered and the search returns no result,
  the run stops there: the \<^verbatim>\<open>error\<close> field of the state holds the message
  \<^verbatim>\<open>No search results found. Please try a different query.\<close>, which is also shown as
  a toast, the report is null, no result is stored or selected, and the stage stays
  \<^verbatim>\<open>searching\<close>.
\<close>

theorem agent_no_results:
  assumes "trim (reportPrompt state) \<noteq> []"
    and "outcome (retryWithBackoff
      (optimizeOperation remote (reportPrompt state) (selectedModel state)) 3 1000 w) = Inr body"
    and "w1 = world (retryWithBackoff
      (optimizeOperation remote (reportPrompt state) (selectedModel state)) 3 1000 w)"
    and "outcome (retryWithBackoff
      (searchOperation remote (ob_query body) (timeFilter state)) 3 1000 w1) = Inr found"
    and "sb_value found = None \<or> sb_value found = Some []"
  shows "error (fst (handleAgentSearch remote state w)) =
      Some ''No search results found. Please try a different query.'' \<and>
    report (fst (handleAgentSearch remote state w)) = None \<and>
    agentStep (status (fst (handleAgentSearch remote state w))) = StepSearching \<and>
    results (fst (handleAgentSearch remote state w)) = [] \<and>
    selectedResults (fst (handleAgentSearch remote state w)) = [] \<and>
    fst (snd (handleAgentSearch remote state w)) =
      [(''Agent Error'', ''No search results found. Please try a different query.'')]"
  using assms by (rule agent_no_results_general)

theorem agent_no_results_witness:
  "trim (reportPrompt (example_state ''test'')) \<noteq> [] \<and>
   outcome (retryWithBackoff (searchOperation example_remote ''test'' AnyTime) 3 1000 1) =
     Inr \<lparr>sb_value = Some [], sb_error = None\<rparr> \<and>
   error (fst (handleAgentSearch example_remote (example_state ''test'') 0)) =
     Some ''No search results found. Please try a different query.'' \<and>
   report (fst (handleAgentSearch example_remote (example_state ''test'') 0)) = None \<and>
   agentStep (status (fst (handleAgentSearch example_remote (example_state ''test'') 0))) =
     StepSearching"
proof -
  have 1: "trim (reportPrompt (example_state ''test'')) \<noteq> []"
    by (simp add: example_state_fields trim_test)
  have 2: "outcome (retryWithBackoff (optimizeOperation example_remote
      (reportPrompt (example_state ''test'')) (selectedModel (example_state ''test''))) 3 1000 0) =
      Inr \<lparr>ob_query = ''test'', ob_optimizedPrompt = ''p'',
        ob_explanation = ''as asked'', ob_suggestedStructure = None\<rparr>"
    by (simp add: example_optimize example_state_fields)
  have 3: "1 = world (retryWithBackoff (optimizeOperation example_remote
      (reportPrompt (example_state ''test'')) (selectedModel (example_state ''test''))) 3 1000 0)"
    by (simp add: example_optimize)
  have 4: "outcome (retryWithBackoff (searchOperation example_remote
      (ob_query \<lparr>ob_query = ''test'', ob_optimizedPrompt = ''p'',
        ob_explanation = ''as asked'', ob_suggestedStructure = None\<rparr>)
      (timeFilter (example_state ''test''))) 3 1000 1) =
      Inr \<lparr>sb_value = Some [], sb_error = None\<rparr>"
    by (simp add: example_search)
  have 5: "sb_value \<lparr>sb_value = Some [], sb_error = None\<rparr> = None \<or>
      sb_value \<lparr>sb_value = Some [], sb_error = None\<rparr> = Some []"
    by simp
  from agent_no_results [OF 1 2 3 4 5] 1 4 show ?thesis
    by (simp add: example_state_fields)
qed



section \<open>The manual search\<close>

lemma mergeResults_same_urls:
  assumes "url ` set new \<subseteq> url ` set (results prev)"
  shows "results (mergeResults new prev) =
    filter (\<lambda>r. isCustomUrl r \<or> result_id r \<in> set (selectedResults prev)) (results prev)"
proof -
  have "filter (\<lambda>n. \<not> list_ex (\<lambda>e. url e = url n) (results prev)) new = []"
    using assms by (auto simp: filter_empty_conv list_ex_iff image_iff subset_iff) metis
  then show ?thesis by (simp add: mergeResults_def)
qed

lemma mergeResults_distinct:
  assumes "url ` set new \<subseteq> url ` set (results prev)" and "distinct (map url (results prev))"
  shows "distinct (map url (results (mergeResults new prev)))"
  using assms by (simp add: mergeResults_same_urls distinct_map_filter)

lemma mergeResults_rerun_drops:
  "map url (results (mergeResults
      (newResults 1 [example_result ''https://a.example/1'' ''one''])
      (initialState ''m'' :: string State))) = [''https://a.example/1''] \<and>
   map url (results (mergeResults
      (newResults 2 [example_result ''https://a.example/1'' ''one''])
      (mergeResults (newResults 1 [example_result ''https://a.example/1'' ''one''])
        (initialState ''m'' :: string State)))) = []"
  by (simp add: mergeResults_def newResults_def example_result_def initialState_def)

lemma example_manual_search:
  "retryWithBackoff (manualSearchOperation example_remote q tf) 3 1000 v =
     \<lparr>outcome = Inr \<lparr>sb_value = Some (if q = ''test'' then [] else scenarioB_results),
        sb_error = None\<rparr>,
      invocations = 1, delays = [], world = Suc v\<rparr>"
  by (simp add: retryWithBackoff_def retry_loop_return manualSearchOperation_def
      example_remote_def resp_ok_def)

lemma handleSearch_searches:
  assumes "trim (query state) \<noteq> []" and "selectedResults state = []"
    and "outcome (retryWithBackoff (manualSearchOperation remote (query state) (timeFilter state))
      3 1000 w) = Inr response"
    and "sb_value response = Some found"
  shows "results (fst (handleSearch remote state w)) =
    results (mergeResults (newResults (date_now remote (world (retryWithBackoff
      (manualSearchOperation remote (query state) (timeFilter state)) 3 1000 w))) found) state) \<and>
    selectedResults (fst (handleSearch remote state w)) = [] \<and>
    query (fst (handleSearch remote state w)) = query state \<and>
    timeFilter (fst (handleSearch remote state w)) = timeFilter state"
  using assms by (simp add: handleSearch_def Let_def updateStatus_def mergeResults_def)

section \<open>Claims about the manual search\<close>

text \<open>
  Claim C7 at a concrete input.  From the initial state with the query \<^verbatim>\<open>cats\<close>, a
  first manual search returns five pages and the candidate set has their five URLs.  The
  same search once more returns the same five pages: the old candidates are neither custom
  nor selected and are dropped, the new ones are dropped because an old candidate has
  their URL, and the candidate set is empty.
\<close>

theorem handleSearch_rerun_drops:
  "map url (results (fst (handleSearch example_remote
      ((initialState ''m'' :: nat State)\<lparr>query := ''cats''\<rparr>) 0))) =
     [''https://a.example/1'', ''https://a.example/2'', ''https://b.example/'',
      ''https://c.example/'', ''https://d.example/''] \<and>
   map url (results (fst (handleSearch example_remote
      (fst (handleSearch example_remote
         ((initialState ''m'' :: nat State)\<lparr>query := ''cats''\<rparr>) 0)) 1))) = []"
proof -
  let ?s0 = "(initialState ''m'' :: nat State)\<lparr>query := ''cats''\<rparr>"
  let ?s1 = "fst (handleSearch example_remote ?s0 0)"
  have q0: "trim (query ?s0) \<noteq> []" "selectedResults ?s0 = []"
    by (simp_all add: trim_cats initialState_def)
  have r0: "outcome (retryWithBackoff (manualSearchOperation example_remote (query ?s0)
      (timeFilter ?s0)) 3 1000 0) = Inr \<lparr>sb_value = Some scenarioB_results, sb_error = None\<rparr>"
    by (simp add: example_manual_search)
  note first = handleSearch_searches [OF q0 r0, of scenarioB_results]
  have urls1: "map url (results ?s1) =
     [''https://a.example/1'', ''https://a.example/2'', ''https://b.example/'',
      ''https://c.example/'', ''https://d.example/'']"
    using first
    by (simp add: mergeResults_def newResults_def scenarioB_results_def example_result_def
        initialState_def)
  have q1: "trim (query ?s1) \<noteq> []" "selectedResults ?s1 = []"
    using first by (simp_all add: trim_cats)
  have r1: "outcome (retryWithBackoff (manualSearchOperation example_remote (query ?s1)
      (timeFilter ?s1)) 3 1000 1) = Inr \<lparr>sb_value = Some scenarioB_results, sb_error = None\<rparr>"
    using first by (simp add: example_manual_search)
  note second = handleSearch_searches [OF q1 r1, of scenarioB_results]
  have same: "url ` set (newResults n scenarioB_results) \<subseteq> url ` set (results ?s1)" for n
  proof -
    have "url ` set (newResults n scenarioB_results) = set (map url (newResults n scenarioB_results))"
      by simp
    also have "map url (newResults n scenarioB_results) = map url (results ?s1)"
      unfolding urls1
      by (simp add: newResults_def scenarioB_results_def example_result_def)
    finally show ?thesis by simp
  qed
  have custom: "\<forall>r\<in>set (results ?s1). \<not> isCustomUrl r"
    using first
    by (simp add: mergeResults_def newResults_def scenarioB_results_def example_result_def
        initialState_def)
  have "results (fst (handleSearch example_remote ?s1 1)) = []"
    using second mergeResults_same_urls [OF same] q1(2) custom
    by (simp add: filter_empty_conv)
  with urls1 show ?thesis by simp
qed

end
